theory Spec2Isabelle
  imports Complex_Main "HOL-Library.Word"
begin

section \<open>Polygon contact generation of CinderBox2D\<close>

text \<open>
  The development follows \<^verbatim>\<open>Collision/cb2CollidePolygon.cpp\<close> and
  \<^verbatim>\<open>Collision/cb2TimeOfImpact.h\<close>.

  Numbers. The C++ type \<^verbatim>\<open>float\<close> is idealised as \<^typ>\<open>real\<close>: arithmetic is exact,
  there is no rounding, no infinity and no NaN. The properties below are about the
  comparisons and the control flow of the code, which this idealisation keeps; where a
  property needs the values to be finite floats, that is written as a hypothesis that
  they lie between \<open>- b2_maxFloat\<close> and \<open>b2_maxFloat\<close>. The C++ type \<^verbatim>\<open>int\<close> is
  \<^typ>\<open>int\<close> (no index in this code comes near the 32-bit range), and
  \<^verbatim>\<open>unsigned char\<close> is \<^typ>\<open>8 word\<close>, so the casts of the source truncate.

  Constants. \<^verbatim>\<open>b2_maxFloat\<close> and \<^verbatim>\<open>b2_linearSlop\<close> are defined in a settings header that
  is not part of the sources at hand; the functions that use them take them as their
  first parameters \<open>maxFloat\<close> and \<open>linearSlop\<close>.
\<close>

subsection \<open>Vectors, rotations and transforms\<close>

datatype Vec2f = Vec2f (vx: real) (vy: real)

datatype b2Rot = b2Rot (rot_s: real) (rot_c: real)

datatype b2Transform = b2Transform (xf_p: Vec2f) (xf_q: b2Rot)

text \<open>
  Modelled from the spec: the vector and transform helpers of the math header
  (\<^verbatim>\<open>operator+\<close>, \<^verbatim>\<open>operator-\<close>, scalar multiple, \<^verbatim>\<open>normalize\<close>, \<^verbatim>\<open>b2Dot\<close>,
  \<^verbatim>\<open>b2Cross\<close>, \<^verbatim>\<open>b2Mul\<close>, \<^verbatim>\<open>b2MulT\<close>) are not among the sources. The spec describes a
  transform as "a rigid placement = translation + rotation, composing as a rotation
  applied then an offset added", which "supports composition and inverse-composition
  (mapping a world point into another frame)". The C++ overloads are told apart here by
  a suffix: \<open>_rot\<close> takes a rotation and a vector, \<open>_xf\<close> a transform and a vector,
  \<open>_rot_rot\<close> two rotations and \<open>_xf_xf\<close> two transforms. \<open>Vec2f_normalize\<close>
  multiplies by the inverse of the length; for a vector of length zero the C++ divides by
  zero and yields NaN, which the idealisation does not have (HOL has \<open>1 / 0 = 0\<close>), so
  nothing below is about a reference edge of length zero.
\<close>

definition Vec2f_add :: "Vec2f \<Rightarrow> Vec2f \<Rightarrow> Vec2f" where
  "Vec2f_add a b = Vec2f (vx a + vx b) (vy a + vy b)"

definition Vec2f_sub :: "Vec2f \<Rightarrow> Vec2f \<Rightarrow> Vec2f" where
  "Vec2f_sub a b = Vec2f (vx a - vx b) (vy a - vy b)"

definition Vec2f_neg :: "Vec2f \<Rightarrow> Vec2f" where
  "Vec2f_neg a = Vec2f (- vx a) (- vy a)"

definition Vec2f_scale :: "real \<Rightarrow> Vec2f \<Rightarrow> Vec2f" where
  "Vec2f_scale k a = Vec2f (k * vx a) (k * vy a)"

definition Vec2f_length :: "Vec2f \<Rightarrow> real" where
  "Vec2f_length a = sqrt (vx a * vx a + vy a * vy a)"

definition Vec2f_normalize :: "Vec2f \<Rightarrow> Vec2f" where
  "Vec2f_normalize a = (let invS = 1 / Vec2f_length a in Vec2f (vx a * invS) (vy a * invS))"

definition b2Dot :: "Vec2f \<Rightarrow> Vec2f \<Rightarrow> real" where
  "b2Dot a b = vx a * vx b + vy a * vy b"

definition b2Cross :: "Vec2f \<Rightarrow> real \<Rightarrow> Vec2f" where
  "b2Cross a k = Vec2f (k * vy a) (- k * vx a)"

definition b2Mul_rot :: "b2Rot \<Rightarrow> Vec2f \<Rightarrow> Vec2f" where
  "b2Mul_rot r a = Vec2f (rot_c r * vx a - rot_s r * vy a) (rot_s r * vx a + rot_c r * vy a)"

definition b2MulT_rot :: "b2Rot \<Rightarrow> Vec2f \<Rightarrow> Vec2f" where
  "b2MulT_rot r a = Vec2f (rot_c r * vx a + rot_s r * vy a) (- rot_s r * vx a + rot_c r * vy a)"

definition b2Mul_xf :: "b2Transform \<Rightarrow> Vec2f \<Rightarrow> Vec2f" where
  "b2Mul_xf T a = Vec2f_add (b2Mul_rot (xf_q T) a) (xf_p T)"

definition b2MulT_xf :: "b2Transform \<Rightarrow> Vec2f \<Rightarrow> Vec2f" where
  "b2MulT_xf T a = b2MulT_rot (xf_q T) (Vec2f_sub a (xf_p T))"

definition b2MulT_rot_rot :: "b2Rot \<Rightarrow> b2Rot \<Rightarrow> b2Rot" where
  "b2MulT_rot_rot r1 r2 =
     b2Rot (rot_c r1 * rot_s r2 - rot_s r1 * rot_c r2) (rot_c r1 * rot_c r2 + rot_s r1 * rot_s r2)"

definition b2MulT_xf_xf :: "b2Transform \<Rightarrow> b2Transform \<Rightarrow> b2Transform" where
  "b2MulT_xf_xf A B =
     b2Transform (b2MulT_rot (xf_q A) (Vec2f_sub (xf_p B) (xf_p A))) (b2MulT_rot_rot (xf_q A) (xf_q B))"

subsection \<open>Shapes, clip vertices and manifolds\<close>

text \<open>
  Modelled from the spec: the declarations of the polygon shape, the contact feature,
  the clip vertex and the manifold are in headers that are not among the sources. The
  records below have the fields that \<^verbatim>\<open>cb2CollidePolygon.cpp\<close> reads and writes, with
  the data model of the spec: a polygon is an "ordered sequence of local-frame vertices",
  a "parallel ordered sequence of outward unit face normals" and a skin radius; a contact
  feature is "a pair of (type, index) tags, one per shape, where type is vertex or face";
  a manifold has "a type tag, a unit local normal and a local reference point, and an
  ordered sequence of 0-2 manifold points". The count of a polygon is its own field, as
  in the code, and the arrays are lists read by index.
\<close>

record b2PolygonShape =
  m_vertices :: "Vec2f list"
  m_normals :: "Vec2f list"
  m_count :: int
  m_radius :: real

datatype FeatureType = e_vertex | e_face

record b2ContactFeature =
  indexA :: "8 word"
  indexB :: "8 word"
  typeA :: FeatureType
  typeB :: FeatureType

record b2ClipVertex =
  cv_v :: Vec2f
  cv_id :: b2ContactFeature

record b2ManifoldPoint =
  cp_localPoint :: Vec2f
  cp_id :: b2ContactFeature

datatype ManifoldType = e_circles | e_faceA | e_faceB

record b2Manifold =
  points :: "b2ManifoldPoint list"
  localNormal :: Vec2f
  localPoint :: Vec2f
  mtype :: ManifoldType
  pointCount :: int

text \<open>
  Modelled from the spec: \<^verbatim>\<open>b2_maxManifoldPoints\<close> is defined in the settings header; the
  spec fixes it ("the (at most 2) clipped points", "point count in {0,1,2}"), and the
  code declares its clip buffers with two elements.
\<close>

definition b2_maxManifoldPoints :: int where
  "b2_maxManifoldPoints = 2"

subsection \<open>b2FindMaxSeparation\<close>

text \<open>
  The inner loop of \<^verbatim>\<open>b2FindMaxSeparation\<close> (lines 43-51): the deepest point of
  \<open>poly2\<close> for the normal \<open>n\<close> of the face that starts at \<open>v1\<close>.
\<close>

definition b2FindMaxSeparation_si :: "real \<Rightarrow> Vec2f \<Rightarrow> Vec2f \<Rightarrow> Vec2f list \<Rightarrow> int \<Rightarrow> real" where
  "b2FindMaxSeparation_si maxFloat n v1 v2s count2 =
     fold (\<lambda>j si.
             let sij = b2Dot n (Vec2f_sub (v2s ! nat j) v1)
             in if sij < si then sij else si)
          [0..count2 - 1] maxFloat"

text \<open>The function returns the pair of \<open>*edgeIndex\<close> and the separation.\<close>

definition b2FindMaxSeparation ::
  "real \<Rightarrow> b2PolygonShape \<Rightarrow> b2Transform \<Rightarrow> b2PolygonShape \<Rightarrow> b2Transform \<Rightarrow> int \<times> real" where
  "b2FindMaxSeparation maxFloat poly1 xf1 poly2 xf2 =
     (let count1 = m_count poly1;
          count2 = m_count poly2;
          n1s = m_normals poly1;
          v1s = m_vertices poly1;
          v2s = m_vertices poly2;
          xf = b2MulT_xf_xf xf2 xf1
      in fold (\<lambda>i (bestIndex, maxSeparation).
                 let n = b2Mul_rot (xf_q xf) (n1s ! nat i);
                     v1 = b2Mul_xf xf (v1s ! nat i);
                     si = b2FindMaxSeparation_si maxFloat n v1 v2s count2
                 in if si > maxSeparation then (i, si) else (bestIndex, maxSeparation))
              [0..count1 - 1] (0, - maxFloat))"

subsection \<open>b2FindIncidentEdge\<close>

text \<open>
  The search loop of \<^verbatim>\<open>b2FindIncidentEdge\<close> (lines 80-90); it returns the locals
  \<open>index\<close> and \<open>minDot\<close>.
\<close>

definition b2FindIncidentEdge_index :: "real \<Rightarrow> Vec2f \<Rightarrow> Vec2f list \<Rightarrow> int \<Rightarrow> int \<times> real" where
  "b2FindIncidentEdge_index maxFloat normal1 normals2 count2 =
     fold (\<lambda>i (index, minDot).
             let dot = b2Dot normal1 (normals2 ! nat i)
             in if dot < minDot then (i, dot) else (index, minDot))
          [0..count2 - 1] (0, maxFloat)"

text \<open>
  The function fills the array \<open>c\<close> of two clip vertices; here it returns them as a list.
  A failed \<^verbatim>\<open>b2Assert\<close> is the result \<open>None\<close>.
\<close>

definition b2FindIncidentEdge ::
  "real \<Rightarrow> b2PolygonShape \<Rightarrow> b2Transform \<Rightarrow> int \<Rightarrow> b2PolygonShape \<Rightarrow> b2Transform
   \<Rightarrow> b2ClipVertex list option" where
  "b2FindIncidentEdge maxFloat poly1 xf1 edge1 poly2 xf2 =
     (let normals1 = m_normals poly1;
          count2 = m_count poly2;
          vertices2 = m_vertices poly2;
          normals2 = m_normals poly2
      in if \<not> (0 \<le> edge1 \<and> edge1 < m_count poly1) then None
         else
           let normal1 = b2MulT_rot (xf_q xf2) (b2Mul_rot (xf_q xf1) (normals1 ! nat edge1));
               (index, minDot) = b2FindIncidentEdge_index maxFloat normal1 normals2 count2;
               i1 = index;
               i2 = (if i1 + 1 < count2 then i1 + 1 else 0)
           in Some
                [\<lparr>cv_v = b2Mul_xf xf2 (vertices2 ! nat i1),
                  cv_id = \<lparr>indexA = word_of_int edge1, indexB = word_of_int i1,
                           typeA = e_face, typeB = e_vertex\<rparr>\<rparr>,
                 \<lparr>cv_v = b2Mul_xf xf2 (vertices2 ! nat i2),
                  cv_id = \<lparr>indexA = word_of_int edge1, indexB = word_of_int i2,
                           typeA = e_face, typeB = e_vertex\<rparr>\<rparr>])"

subsection \<open>b2ClipSegmentToLine\<close>

text \<open>
  Modelled from the spec: \<^verbatim>\<open>b2ClipSegmentToLine\<close> is called by \<^verbatim>\<open>b2CollidePolygons\<close> and
  defined in a file that is not among the sources. The spec gives its contract
  \<^verbatim>\<open>ClipSegmentToLine(outPts, inPts[2], normal, offset, newVertexIndexTag) -> count\<close>:
  it "computes signed distances d_i = dot(normal, inPts[i]) - offset for the two input
  points. If both are <= 0, both pass through unchanged (with their original tags). If
  exactly one is > 0 (outside), the boundary intersection point is computed by linear
  interpolation along the segment and added with a synthesized tag carrying
  newVertexIndexTag, and the surviving original point is kept. If both are > 0, the
  result is empty."
  The result list is \<open>outPts\<close> and its length is the returned count. The spec says of
  the synthesized tag only that it carries \<open>newVertexIndexTag\<close>; as in the engine this
  code derives from, the tag is stored as the index for shape A with type vertex, and the
  index for shape B is taken from the first input point with type face.
\<close>

definition b2ClipSegmentToLine :: "b2ClipVertex list \<Rightarrow> Vec2f \<Rightarrow> real \<Rightarrow> int \<Rightarrow> b2ClipVertex list" where
  "b2ClipSegmentToLine inPts normal offset newVertexIndexTag =
     (let distance0 = b2Dot normal (cv_v (inPts ! 0)) - offset;
          distance1 = b2Dot normal (cv_v (inPts ! 1)) - offset
      in if distance0 \<le> 0 \<and> distance1 \<le> 0 then [inPts ! 0, inPts ! 1]
         else if distance0 > 0 \<and> distance1 > 0 then []
         else
           let interp = distance0 / (distance0 - distance1);
               boundary =
                 \<lparr>cv_v = Vec2f_add (cv_v (inPts ! 0))
                                   (Vec2f_scale interp (Vec2f_sub (cv_v (inPts ! 1)) (cv_v (inPts ! 0)))),
                  cv_id = \<lparr>indexA = word_of_int newVertexIndexTag,
                           indexB = indexB (cv_id (inPts ! 0)),
                           typeA = e_vertex, typeB = e_face\<rparr>\<rparr>
           in [if distance0 \<le> 0 then inPts ! 0 else inPts ! 1, boundary])"

subsection \<open>b2CollidePolygons\<close>

text \<open>
  The locals that the choice of the reference polygon sets (lines 133-159); \<open>ref_type\<close>
  is the value written to \<open>manifold->type\<close>.
\<close>

record b2Reference =
  ref_poly1 :: b2PolygonShape
  ref_poly2 :: b2PolygonShape
  ref_xf1 :: b2Transform
  ref_xf2 :: b2Transform
  ref_edge1 :: int
  ref_type :: ManifoldType
  ref_flip :: "8 word"

definition b2CollidePolygons_reference ::
  "real \<Rightarrow> b2PolygonShape \<Rightarrow> b2Transform \<Rightarrow> b2PolygonShape \<Rightarrow> b2Transform
   \<Rightarrow> int \<Rightarrow> real \<Rightarrow> int \<Rightarrow> real \<Rightarrow> b2Reference" where
  "b2CollidePolygons_reference linearSlop polyA xfA polyB xfB edgeA separationA edgeB separationB =
     (let k_tol = 0.1 * linearSlop
      in if separationB > separationA + k_tol
         then \<lparr>ref_poly1 = polyB, ref_poly2 = polyA, ref_xf1 = xfB, ref_xf2 = xfA,
               ref_edge1 = edgeB, ref_type = e_faceB, ref_flip = 1\<rparr>
         else \<lparr>ref_poly1 = polyA, ref_poly2 = polyB, ref_xf1 = xfA, ref_xf2 = xfB,
               ref_edge1 = edgeA, ref_type = e_faceA, ref_flip = 0\<rparr>)"

text \<open>The locals of the reference face (lines 164-190).\<close>

record b2ReferenceFace =
  f_iv1 :: int
  f_iv2 :: int
  f_localNormal :: Vec2f
  f_planePoint :: Vec2f
  f_tangent :: Vec2f
  f_normal :: Vec2f
  f_frontOffset :: real
  f_sideOffset1 :: real
  f_sideOffset2 :: real

definition b2CollidePolygons_face :: "b2PolygonShape \<Rightarrow> b2Transform \<Rightarrow> int \<Rightarrow> real \<Rightarrow> b2ReferenceFace" where
  "b2CollidePolygons_face poly1 xf1 edge1 totalRadius =
     (let count1 = m_count poly1;
          vertices1 = m_vertices poly1;
          iv1 = edge1;
          iv2 = (if edge1 + 1 < count1 then edge1 + 1 else 0);
          v11 = vertices1 ! nat iv1;
          v12 = vertices1 ! nat iv2;
          localTangent = Vec2f_normalize (Vec2f_sub v12 v11);
          localNormal = b2Cross localTangent 1;
          planePoint = Vec2f_scale 0.5 (Vec2f_add v11 v12);
          tangent = b2Mul_rot (xf_q xf1) localTangent;
          normal = b2Cross tangent 1;
          v11 = b2Mul_xf xf1 v11;
          v12 = b2Mul_xf xf1 v12;
          frontOffset = b2Dot normal v11;
          sideOffset1 = - b2Dot tangent v11 + totalRadius;
          sideOffset2 = b2Dot tangent v12 + totalRadius
      in \<lparr>f_iv1 = iv1, f_iv2 = iv2, f_localNormal = localNormal, f_planePoint = planePoint,
          f_tangent = tangent, f_normal = normal, f_frontOffset = frontOffset,
          f_sideOffset1 = sideOffset1, f_sideOffset2 = sideOffset2\<rparr>)"

text \<open>
  The body of the loop over the clipped points (lines 218-235), on the pair of the
  manifold and the local \<open>pointCount\<close>.
\<close>

definition b2CollidePolygons_point ::
  "b2ClipVertex list \<Rightarrow> Vec2f \<Rightarrow> real \<Rightarrow> real \<Rightarrow> b2Transform \<Rightarrow> 8 word
   \<Rightarrow> int \<Rightarrow> b2Manifold \<times> int \<Rightarrow> b2Manifold \<times> int" where
  "b2CollidePolygons_point clipPoints2 normal frontOffset totalRadius xf2 flip i st =
     (let manifold = fst st;
          pointCount = snd st;
          separation = b2Dot normal (cv_v (clipPoints2 ! nat i)) - frontOffset
      in if separation \<le> totalRadius
         then
           let cp = points manifold ! nat pointCount;
               cp = cp\<lparr>cp_localPoint := b2MulT_xf xf2 (cv_v (clipPoints2 ! nat i))\<rparr>;
               cp = cp\<lparr>cp_id := cv_id (clipPoints2 ! nat i)\<rparr>;
               cp = (if flip \<noteq> 0
                     then
                       let cf = cp_id cp
                       in cp\<lparr>cp_id := \<lparr>indexA = indexB cf, indexB = indexA cf,
                                         typeA = typeB cf, typeB = typeA cf\<rparr>\<rparr>
                     else cp)
           in (manifold\<lparr>points := (points manifold)[nat pointCount := cp]\<rparr>, pointCount + 1)
         else (manifold, pointCount))"

text \<open>The loop and the final store of \<open>pointCount\<close> (lines 215-238).\<close>

definition b2CollidePolygons_points ::
  "b2Manifold \<Rightarrow> b2ClipVertex list \<Rightarrow> Vec2f \<Rightarrow> real \<Rightarrow> real \<Rightarrow> b2Transform \<Rightarrow> 8 word \<Rightarrow> b2Manifold" where
  "b2CollidePolygons_points manifold clipPoints2 normal frontOffset totalRadius xf2 flip =
     (let st = fold (b2CollidePolygons_point clipPoints2 normal frontOffset totalRadius xf2 flip)
                    [0..b2_maxManifoldPoints - 1] (manifold, 0)
      in (fst st)\<lparr>pointCount := snd st\<rparr>)"

text \<open>
  The function writes through the pointer \<open>manifold\<close>; here it takes the manifold the
  caller passes and returns the manifold it leaves behind. \<open>None\<close> is the failed
  assertion of \<^verbatim>\<open>b2FindIncidentEdge\<close>.
\<close>

definition b2CollidePolygons ::
  "real \<Rightarrow> real \<Rightarrow> b2Manifold \<Rightarrow> b2PolygonShape \<Rightarrow> b2Transform \<Rightarrow> b2PolygonShape \<Rightarrow> b2Transform
   \<Rightarrow> b2Manifold option" where
  "b2CollidePolygons maxFloat linearSlop manifold polyA xfA polyB xfB =
     (let manifold = manifold\<lparr>pointCount := 0\<rparr>;
          totalRadius = m_radius polyA + m_radius polyB;
          (edgeA, separationA) = b2FindMaxSeparation maxFloat polyA xfA polyB xfB
      in if separationA > totalRadius then Some manifold
         else
           let (edgeB, separationB) = b2FindMaxSeparation maxFloat polyB xfB polyA xfA
           in if separationB > totalRadius then Some manifold
              else
                let r = b2CollidePolygons_reference linearSlop polyA xfA polyB xfB
                          edgeA separationA edgeB separationB;
                    manifold = manifold\<lparr>mtype := ref_type r\<rparr>
                in case b2FindIncidentEdge maxFloat (ref_poly1 r) (ref_xf1 r) (ref_edge1 r)
                          (ref_poly2 r) (ref_xf2 r) of
                     None \<Rightarrow> None
                   | Some incidentEdge \<Rightarrow>
                       let f = b2CollidePolygons_face (ref_poly1 r) (ref_xf1 r) (ref_edge1 r) totalRadius;
                           clipPoints1 = b2ClipSegmentToLine incidentEdge (Vec2f_neg (f_tangent f))
                                           (f_sideOffset1 f) (f_iv1 f)
                       in if int (length clipPoints1) < 2 then Some manifold
                          else
                            let clipPoints2 = b2ClipSegmentToLine clipPoints1 (f_tangent f)
                                                (f_sideOffset2 f) (f_iv2 f)
                            in if int (length clipPoints2) < 2 then Some manifold
                               else
                                 let manifold = manifold\<lparr>localNormal := f_localNormal f\<rparr>;
                                     manifold = manifold\<lparr>localPoint := f_planePoint f\<rparr>
                                 in Some (b2CollidePolygons_points manifold clipPoints2 (f_normal f)
                                            (f_frontOffset f) totalRadius (ref_xf2 r) (ref_flip r)))"

subsection \<open>The locals of b2CollidePolygons\<close>

text \<open>
  The values that \<^verbatim>\<open>b2CollidePolygons\<close> gives its locals, as functions of its arguments,
  each built from the same parts as the function: \<open>totalRadius\<close>; whether one of the
  two early returns of lines 125-131 is taken; the reference chosen in lines 133-159;
  the reference face of lines 164-190; \<open>incidentEdge\<close> (line 162), \<open>clipPoints1\<close>
  (line 198) and \<open>clipPoints2\<close> (line 204), which are \<open>None\<close> when the assertion of
  \<^verbatim>\<open>b2FindIncidentEdge\<close> fails.
\<close>

definition b2CollidePolygons_totalRadius :: "b2PolygonShape \<Rightarrow> b2PolygonShape \<Rightarrow> real" where
  "b2CollidePolygons_totalRadius polyA polyB = m_radius polyA + m_radius polyB"

definition b2CollidePolygons_separated ::
  "real \<Rightarrow> b2PolygonShape \<Rightarrow> b2Transform \<Rightarrow> b2PolygonShape \<Rightarrow> b2Transform \<Rightarrow> bool" where
  "b2CollidePolygons_separated maxFloat polyA xfA polyB xfB =
     (snd (b2FindMaxSeparation maxFloat polyA xfA polyB xfB) > b2CollidePolygons_totalRadius polyA polyB
      \<or> snd (b2FindMaxSeparation maxFloat polyB xfB polyA xfA) > b2CollidePolygons_totalRadius polyA polyB)"

definition b2CollidePolygons_r ::
  "real \<Rightarrow> real \<Rightarrow> b2PolygonShape \<Rightarrow> b2Transform \<Rightarrow> b2PolygonShape \<Rightarrow> b2Transform \<Rightarrow> b2Reference" where
  "b2CollidePolygons_r maxFloat linearSlop polyA xfA polyB xfB =
     (let (edgeA, separationA) = b2FindMaxSeparation maxFloat polyA xfA polyB xfB;
          (edgeB, separationB) = b2FindMaxSeparation maxFloat polyB xfB polyA xfA
      in b2CollidePolygons_reference linearSlop polyA xfA polyB xfB
           edgeA separationA edgeB separationB)"

definition b2CollidePolygons_f ::
  "real \<Rightarrow> real \<Rightarrow> b2PolygonShape \<Rightarrow> b2Transform \<Rightarrow> b2PolygonShape \<Rightarrow> b2Transform \<Rightarrow> b2ReferenceFace" where
  "b2CollidePolygons_f maxFloat linearSlop polyA xfA polyB xfB =
     (let r = b2CollidePolygons_r maxFloat linearSlop polyA xfA polyB xfB
      in b2CollidePolygons_face (ref_poly1 r) (ref_xf1 r) (ref_edge1 r)
           (b2CollidePolygons_totalRadius polyA polyB))"

definition b2CollidePolygons_incidentEdge ::
  "real \<Rightarrow> real \<Rightarrow> b2PolygonShape \<Rightarrow> b2Transform \<Rightarrow> b2PolygonShape \<Rightarrow> b2Transform
   \<Rightarrow> b2ClipVertex list option" where
  "b2CollidePolygons_incidentEdge maxFloat linearSlop polyA xfA polyB xfB =
     (let r = b2CollidePolygons_r maxFloat linearSlop polyA xfA polyB xfB
      in b2FindIncidentEdge maxFloat (ref_poly1 r) (ref_xf1 r) (ref_edge1 r) (ref_poly2 r) (ref_xf2 r))"

definition b2CollidePolygons_clipPoints1 ::
  "real \<Rightarrow> real \<Rightarrow> b2PolygonShape \<Rightarrow> b2Transform \<Rightarrow> b2PolygonShape \<Rightarrow> b2Transform
   \<Rightarrow> b2ClipVertex list option" where
  "b2CollidePolygons_clipPoints1 maxFloat linearSlop polyA xfA polyB xfB =
     (let f = b2CollidePolygons_f maxFloat linearSlop polyA xfA polyB xfB
      in case b2CollidePolygons_incidentEdge maxFloat linearSlop polyA xfA polyB xfB of
           None \<Rightarrow> None
         | Some incidentEdge \<Rightarrow>
             Some (b2ClipSegmentToLine incidentEdge (Vec2f_neg (f_tangent f)) (f_sideOffset1 f) (f_iv1 f)))"

definition b2CollidePolygons_clipPoints2 ::
  "real \<Rightarrow> real \<Rightarrow> b2PolygonShape \<Rightarrow> b2Transform \<Rightarrow> b2PolygonShape \<Rightarrow> b2Transform
   \<Rightarrow> b2ClipVertex list option" where
  "b2CollidePolygons_clipPoints2 maxFloat linearSlop polyA xfA polyB xfB =
     (let f = b2CollidePolygons_f maxFloat linearSlop polyA xfA polyB xfB
      in case b2CollidePolygons_clipPoints1 maxFloat linearSlop polyA xfA polyB xfB of
           None \<Rightarrow> None
         | Some clipPoints1 \<Rightarrow>
             Some (b2ClipSegmentToLine clipPoints1 (f_tangent f) (f_sideOffset2 f) (f_iv2 f)))"

subsection \<open>The separation of the specification\<close>

text \<open>
  The specification of the separation finder, in its own words: "for every face normal
  of polyRef, transform it into polyOther's local frame, then compute, over all vertices
  of polyOther, the minimum signed projection onto that normal relative to the
  corresponding reference-face vertex"; "take the axis (face) maximizing this minimum".
  \<open>spec_projection\<close> is the signed projection of vertex \<open>j\<close> of the other polygon for
  face \<open>i\<close> of the reference polygon.
\<close>

definition spec_projection ::
  "b2PolygonShape \<Rightarrow> b2Transform \<Rightarrow> b2PolygonShape \<Rightarrow> b2Transform \<Rightarrow> int \<Rightarrow> int \<Rightarrow> real" where
  "spec_projection polyRef xfRef polyOther xfOther i j =
     (let xf = b2MulT_xf_xf xfOther xfRef
      in b2Dot (b2Mul_rot (xf_q xf) (m_normals polyRef ! nat i))
               (Vec2f_sub (m_vertices polyOther ! nat j) (b2Mul_xf xf (m_vertices polyRef ! nat i))))"

definition spec_faceSeparation ::
  "b2PolygonShape \<Rightarrow> b2Transform \<Rightarrow> b2PolygonShape \<Rightarrow> b2Transform \<Rightarrow> int \<Rightarrow> real" where
  "spec_faceSeparation polyRef xfRef polyOther xfOther i =
     Min (spec_projection polyRef xfRef polyOther xfOther i ` {0..<m_count polyOther})"

definition spec_maxSeparation ::
  "b2PolygonShape \<Rightarrow> b2Transform \<Rightarrow> b2PolygonShape \<Rightarrow> b2Transform \<Rightarrow> real" where
  "spec_maxSeparation polyRef xfRef polyOther xfOther =
     Max (spec_faceSeparation polyRef xfRef polyOther xfOther ` {0..<m_count polyRef})"

subsection \<open>Test data\<close>

text \<open>
  The shapes of the specification's examples: an axis-aligned unit square with skin
  radius 0, a triangle with its tip at the origin of its frame and sides of lengths 5, 6
  and 5, a placement without rotation, one turned by half a turn and one turned by the
  angle with sine 3/5 and cosine 4/5. \<open>fltMax\<close> is the largest finite
  single-precision number and \<open>slop\<close> is 0.005, the values that the engine this code
  derives from gives \<^verbatim>\<open>b2_maxFloat\<close> and \<^verbatim>\<open>b2_linearSlop\<close>.
\<close>

definition unitSquare :: b2PolygonShape where
  "unitSquare =
     \<lparr>m_vertices = [Vec2f (- 1 / 2) (- 1 / 2), Vec2f (1 / 2) (- 1 / 2),
                    Vec2f (1 / 2) (1 / 2), Vec2f (- 1 / 2) (1 / 2)],
      m_normals = [Vec2f 0 (- 1), Vec2f 1 0, Vec2f 0 1, Vec2f (- 1) 0],
      m_count = 4, m_radius = 0\<rparr>"

definition wedge :: "real \<Rightarrow> b2PolygonShape" where
  "wedge radius =
     \<lparr>m_vertices = [Vec2f 0 0, Vec2f 4 (- 3), Vec2f 4 3],
      m_normals = [Vec2f (- 3 / 5) (- 4 / 5), Vec2f 1 0, Vec2f (- 3 / 5) (4 / 5)],
      m_count = 3, m_radius = radius\<rparr>"

definition xfHalfTurn :: "real \<Rightarrow> real \<Rightarrow> b2Transform" where
  "xfHalfTurn px py = b2Transform (Vec2f px py) (b2Rot 0 (- 1))"

definition xfTilted :: "real \<Rightarrow> real \<Rightarrow> b2Transform" where
  "xfTilted px py = b2Transform (Vec2f px py) (b2Rot (3 / 5) (4 / 5))"

definition xfAt :: "real \<Rightarrow> real \<Rightarrow> b2Transform" where
  "xfAt px py = b2Transform (Vec2f px py) (b2Rot 0 1)"

definition fltMax :: real where
  "fltMax = 340282346638528859811704183484516925440"

definition slop :: real where
  "slop = 5 / 1000"

text \<open>A manifold as a caller may pass it, with two points left from an earlier step.\<close>

definition oldManifold :: b2Manifold where
  "oldManifold =
     \<lparr>points = replicate 2 \<lparr>cp_localPoint = Vec2f 0 0,
                              cp_id = \<lparr>indexA = 0, indexB = 0, typeA = e_vertex, typeB = e_vertex\<rparr>\<rparr>,
      localNormal = Vec2f 0 0, localPoint = Vec2f 0 0, mtype = e_circles, pointCount = 2\<rparr>"

subsection \<open>Depth and swapped features of the specification\<close>

text \<open>
  The specification's "penetration depth as its signed distance along the reference
  normal minus the face offset", and its swap of "each feature's per-shape tags".
\<close>

definition spec_depth :: "Vec2f \<Rightarrow> real \<Rightarrow> b2ClipVertex \<Rightarrow> real" where
  "spec_depth normal frontOffset cv = b2Dot normal (cv_v cv) - frontOffset"

definition spec_swapped :: "b2ContactFeature \<Rightarrow> b2ContactFeature" where
  "spec_swapped cf = \<lparr>indexA = indexB cf, indexB = indexA cf, typeA = typeB cf, typeB = typeA cf\<rparr>"

subsection \<open>The incident edge of the specification\<close>

text \<open>
  The specification's "dot product with the reference face normal", for edge \<open>i\<close> of
  the incident polygon, with the reference normal in the frame of the incident polygon.
\<close>

definition spec_incidentDot ::
  "b2PolygonShape \<Rightarrow> b2Transform \<Rightarrow> int \<Rightarrow> b2PolygonShape \<Rightarrow> b2Transform \<Rightarrow> int \<Rightarrow> real" where
  "spec_incidentDot poly1 xf1 edge1 poly2 xf2 i =
     b2Dot (b2MulT_rot (xf_q xf2) (b2Mul_rot (xf_q xf1) (m_normals poly1 ! nat edge1)))
           (m_normals poly2 ! nat i)"

section \<open>Time of impact\<close>

text \<open>
  \<^verbatim>\<open>cb2TimeOfImpact.h\<close> declares the input, the output and the function; the output
  is the struct of lines 36-49. The proxy and the sweep are declared in other headers
  and stay type parameters here.
\<close>

datatype State = e_unknown | e_failed | e_overlapped | e_touching | e_separated

record cb2TOIOutput =
  out_state :: State
  out_t :: real

record ('proxy, 'sweep) cb2TOIInput =
  proxyA :: 'proxy
  proxyB :: 'proxy
  sweepA :: 'sweep
  sweepB :: 'sweep
  tMax :: real

text \<open>
  Modelled from the spec: what the driver takes from outside, none of it among the
  sources. \<open>ext_distance\<close> is the "generic closest-point/distance primitive", applied to
  "the two proxies as positioned by their sweeps interpolated to t"; \<open>ext_band\<close> is the
  "touching tolerance band (derived from both proxies' skin radii plus a numeric
  epsilon)"; \<open>ext_bound\<close> is the "conservative upper bound on how fast the gap could
  close"; \<open>ext_nearZero\<close> is the size up to which a denominator counts as "near-zero";
  \<open>ext_iterationCap\<close> is the "iteration cap".
\<close>

record ('proxy, 'sweep) cb2TOIExternals =
  ext_distance :: "'proxy \<Rightarrow> 'sweep \<Rightarrow> 'proxy \<Rightarrow> 'sweep \<Rightarrow> real \<Rightarrow> real"
  ext_band :: "'proxy \<Rightarrow> 'proxy \<Rightarrow> real"
  ext_bound :: "'proxy \<Rightarrow> 'sweep \<Rightarrow> 'proxy \<Rightarrow> 'sweep \<Rightarrow> real \<Rightarrow> real"
  ext_nearZero :: real
  ext_iterationCap :: nat

text \<open>
  Modelled from the spec: the body of \<^verbatim>\<open>cb2TimeOfImpact\<close> is not among the sources, only
  its declaration. One iteration of the conservative advancement, in the words of the
  spec: "evaluate the closest-point distance between the two proxies as positioned by
  their sweeps interpolated to t. If the distance is already within a small touching
  tolerance band and t == 0, report overlapped. If within the tolerance band at t > 0,
  report touching at this t. Otherwise, compute a conservative upper bound on how fast
  the gap could close, and advance t by (currentDistance - toleranceBand) / thatBound,
  clamped not to exceed tMax. Terminate with separated if t reaches tMax without the gap
  closing to tolerance; terminate with failed if any bound computation would require
  dividing by a near-zero denominator." The state machine of the spec is
  "unknown to failed, overlapped, touching or separated; all four are terminal; no
  further transitions are possible once reported": the step leaves a reported output as
  it is.
\<close>

definition cb2TimeOfImpact_step ::
  "('proxy, 'sweep) cb2TOIExternals \<Rightarrow> ('proxy, 'sweep) cb2TOIInput \<Rightarrow> cb2TOIOutput \<Rightarrow> cb2TOIOutput" where
  "cb2TimeOfImpact_step ext input output =
     (if out_state output \<noteq> e_unknown then output
      else
        let t1 = out_t output;
            distance = ext_distance ext (proxyA input) (sweepA input) (proxyB input) (sweepB input) t1;
            band = ext_band ext (proxyA input) (proxyB input)
        in if distance \<le> band
           then (if t1 = 0 then output\<lparr>out_state := e_overlapped\<rparr>
                 else output\<lparr>out_state := e_touching\<rparr>)
           else
             let bound = ext_bound ext (proxyA input) (sweepA input) (proxyB input) (sweepB input) t1
             in if bound \<le> ext_nearZero ext then output\<lparr>out_state := e_failed\<rparr>
                else
                  let t2 = min (tMax input) (t1 + (distance - band) / bound)
                  in if t2 \<ge> tMax input then \<lparr>out_state = e_separated, out_t = t2\<rparr>
                     else output\<lparr>out_t := t2\<rparr>)"

text \<open>
  Modelled from the spec: the driver. It "maintains a candidate time t in [0, tMax],
  starting at 0", repeats the iteration, and "terminates with failed if an iteration cap
  is exceeded without convergence". The output is "constructed fresh per query" in
  the state unknown.
\<close>

fun cb2TimeOfImpact_loop ::
  "nat \<Rightarrow> ('proxy, 'sweep) cb2TOIExternals \<Rightarrow> ('proxy, 'sweep) cb2TOIInput \<Rightarrow> cb2TOIOutput
   \<Rightarrow> cb2TOIOutput" where
  "cb2TimeOfImpact_loop 0 ext input output =
     (if out_state output = e_unknown then output\<lparr>out_state := e_failed\<rparr> else output)"
| "cb2TimeOfImpact_loop (Suc n) ext input output =
     (if out_state output = e_unknown
      then cb2TimeOfImpact_loop n ext input (cb2TimeOfImpact_step ext input output)
      else output)"

text \<open>
  Modelled from the spec: the entry point, with the contract
  \<^verbatim>\<open>TimeOfImpact(proxyA, sweepA, proxyB, sweepB, tMax) -> TOIOutput\<close>; it runs the loop
  from the fresh output, for at most the iteration cap.
\<close>

definition cb2TimeOfImpact ::
  "('proxy, 'sweep) cb2TOIExternals \<Rightarrow> ('proxy, 'sweep) cb2TOIInput \<Rightarrow> cb2TOIOutput" where
  "cb2TimeOfImpact ext input =
     cb2TimeOfImpact_loop (ext_iterationCap ext) ext input \<lparr>out_state = e_unknown, out_t = 0\<rparr>"

text \<open>
  Test data: the head-on approach of the specification's examples. Two shapes start 2
  units apart and close at speed 1; the tolerance band is 1/100.
\<close>

definition headOn :: "(unit, unit) cb2TOIExternals" where
  "headOn =
     \<lparr>ext_distance = (\<lambda>_ _ _ _ t. 2 - t), ext_band = (\<lambda>_ _. 1 / 100),
      ext_bound = (\<lambda>_ _ _ _ _. 1), ext_nearZero = 1 / 1000000, ext_iterationCap = 20\<rparr>"

definition headOnInput :: "real \<Rightarrow> (unit, unit) cb2TOIInput" where
  "headOnInput tm = \<lparr>proxyA = (), proxyB = (), sweepA = (), sweepB = (), tMax = tm\<rparr>"

section \<open>Properties\<close>

subsection \<open>Loops\<close>

lemma upto_0_3: "[0..3::int] = [0, 1, 2, 3]"
  by (simp add: upto.simps)

lemma upto_0_1: "[0..1::int] = [0, 1]"
  by (simp add: upto.simps)

lemmas vec_defs = Vec2f_add_def Vec2f_sub_def Vec2f_neg_def Vec2f_scale_def b2Dot_def b2Cross_def
  b2Mul_rot_def b2MulT_rot_def b2Mul_xf_def b2MulT_xf_def b2MulT_rot_rot_def b2MulT_xf_xf_def

lemma set_upto_less: "set [0..n - 1] = {0..<n::int}"
  by auto

lemma fold_min_loop:
  "fold (\<lambda>j si. let sij = g j in if sij < si then sij else si) js (M::real) = Min (insert M (g ` set js))"
proof (induction js arbitrary: M)
  case Nil
  show ?case by simp
next
  case (Cons j js)
  have "(if g j < M then g j else M) = min (g j) M" by (simp add: min_def)
  then have "fold (\<lambda>j si. let sij = g j in if sij < si then sij else si) (j # js) M
      = Min (insert (min (g j) M) (g ` set js))"
    using Cons.IH [of "min (g j) M"] by (simp add: Let_def)
  also have "\<dots> = Min (insert M (g ` set (j # js)))"
  proof (cases "js = []")
    case True
    then show ?thesis by (simp add: min.commute)
  next
    case False
    then have ne: "g ` set js \<noteq> {}" by simp
    have "Min (insert (min (g j) M) (g ` set js)) = min (min (g j) M) (Min (g ` set js))"
      using ne by simp
    also have "\<dots> = min M (min (g j) (Min (g ` set js)))"
      by (simp add: min.commute min.left_commute)
    also have "\<dots> = Min (insert M (insert (g j) (g ` set js)))"
      using ne by simp
    finally show ?thesis by simp
  qed
  finally show ?case .
qed

lemma si_eq:
  "b2FindMaxSeparation_si maxFloat n v1 v2s count2
     = Min (insert maxFloat ((\<lambda>j. b2Dot n (Vec2f_sub (v2s ! nat j) v1)) ` {0..<count2}))"
  unfolding b2FindMaxSeparation_si_def fold_min_loop set_upto_less ..

lemma fold_argmax:
  assumes "fold (\<lambda>i (b, m). let s = h i in if s > m then (i, s) else (b, m)) js (b0, m0::real) = (b, m)"
  shows "m0 \<le> m \<and> (\<forall>i\<in>set js. h i \<le> m) \<and> ((b = b0 \<and> m = m0) \<or> (b \<in> set js \<and> h b = m))"
  using assms
proof (induction js arbitrary: b0 m0)
  case Nil
  then show ?case by simp
next
  case (Cons j js)
  show ?case
  proof (cases "h j > m0")
    case True
    with Cons.prems have "fold (\<lambda>i (b, m). let s = h i in if s > m then (i, s) else (b, m)) js (j, h j) = (b, m)"
      by (simp add: Let_def)
    from Cons.IH [OF this] True show ?thesis by auto
  next
    case False
    with Cons.prems have "fold (\<lambda>i (b, m). let s = h i in if s > m then (i, s) else (b, m)) js (b0, m0) = (b, m)"
      by (simp add: Let_def)
    from Cons.IH [OF this] False show ?thesis by auto
  qed
qed

lemma fold_argmin:
  assumes "fold (\<lambda>i (b, m). let s = h i in if s < m then (i, s) else (b, m)) js (b0, m0::real) = (b, m)"
  shows "m \<le> m0 \<and> (\<forall>i\<in>set js. m \<le> h i) \<and> ((b = b0 \<and> m = m0) \<or> (b \<in> set js \<and> h b = m))"
  using assms
proof (induction js arbitrary: b0 m0)
  case Nil
  then show ?case by simp
next
  case (Cons j js)
  show ?case
  proof (cases "h j < m0")
    case True
    with Cons.prems have "fold (\<lambda>i (b, m). let s = h i in if s < m then (i, s) else (b, m)) js (j, h j) = (b, m)"
      by (simp add: Let_def)
    from Cons.IH [OF this] True show ?thesis by auto
  next
    case False
    with Cons.prems have "fold (\<lambda>i (b, m). let s = h i in if s < m then (i, s) else (b, m)) js (b0, m0) = (b, m)"
      by (simp add: Let_def)
    from Cons.IH [OF this] False show ?thesis by auto
  qed
qed

lemma b2FindMaxSeparation_loop:
  assumes "b2FindMaxSeparation maxFloat poly1 xf1 poly2 xf2 = (e, s)"
  defines "h \<equiv> \<lambda>i. b2FindMaxSeparation_si maxFloat
                      (b2Mul_rot (xf_q (b2MulT_xf_xf xf2 xf1)) (m_normals poly1 ! nat i))
                      (b2Mul_xf (b2MulT_xf_xf xf2 xf1) (m_vertices poly1 ! nat i))
                      (m_vertices poly2) (m_count poly2)"
  shows "- maxFloat \<le> s \<and> (\<forall>i\<in>{0..<m_count poly1}. h i \<le> s)
         \<and> ((e = 0 \<and> s = - maxFloat) \<or> (e \<in> {0..<m_count poly1} \<and> h e = s))"
proof -
  have "fold (\<lambda>i (b, m). let s = h i in if s > m then (i, s) else (b, m)) [0..m_count poly1 - 1] (0, - maxFloat) = (e, s)"
    using assms(1) unfolding b2FindMaxSeparation_def h_def Let_def by simp
  from fold_argmax [OF this] show ?thesis
    unfolding set_upto_less by simp
qed

lemma b2FindMaxSeparation_edgeIndex:
  assumes "1 \<le> m_count poly1"
  shows "0 \<le> fst (b2FindMaxSeparation maxFloat poly1 xf1 poly2 xf2)
       \<and> fst (b2FindMaxSeparation maxFloat poly1 xf1 poly2 xf2) < m_count poly1"
proof -
  obtain e s where es: "b2FindMaxSeparation maxFloat poly1 xf1 poly2 xf2 = (e, s)"
    by (cases "b2FindMaxSeparation maxFloat poly1 xf1 poly2 xf2")
  from b2FindMaxSeparation_loop [OF es] assms show ?thesis
    unfolding es by auto
qed

lemma h_eq_spec:
  "b2FindMaxSeparation_si maxFloat
                      (b2Mul_rot (xf_q (b2MulT_xf_xf xf2 xf1)) (m_normals poly1 ! nat i))
                      (b2Mul_xf (b2MulT_xf_xf xf2 xf1) (m_vertices poly1 ! nat i))
                      (m_vertices poly2) (m_count poly2)
   = Min (insert maxFloat (spec_projection poly1 xf1 poly2 xf2 i ` {0..<m_count poly2}))"
  unfolding si_eq spec_projection_def Let_def ..

subsection \<open>Evaluation on the test data\<close>

lemma ivl_0_4: "{0..<4::int} = {0, 1, 2, 3}"
  by auto

lemma sep_far_A: "b2FindMaxSeparation fltMax unitSquare (xfAt 0 0) unitSquare (xfAt (3 / 2) 0) = (1, 1 / 2)"
  by (simp add: b2FindMaxSeparation_def b2FindMaxSeparation_si_def unitSquare_def xfAt_def
      fltMax_def upto_0_3 vec_defs)

subsection \<open>The paths through b2CollidePolygons\<close>

lemmas locals_defs = b2CollidePolygons_totalRadius_def b2CollidePolygons_separated_def
  b2CollidePolygons_r_def b2CollidePolygons_f_def b2CollidePolygons_incidentEdge_def
  b2CollidePolygons_clipPoints1_def b2CollidePolygons_clipPoints2_def

lemma collide_separated:
  assumes "b2CollidePolygons_separated maxFloat polyA xfA polyB xfB"
  shows "b2CollidePolygons maxFloat linearSlop manifold polyA xfA polyB xfB
         = Some (manifold\<lparr>pointCount := 0\<rparr>)"
  using assms
  by (auto simp: b2CollidePolygons_def locals_defs Let_def split: prod.splits)

lemma collide_assert:
  assumes "\<not> b2CollidePolygons_separated maxFloat polyA xfA polyB xfB"
    and "b2CollidePolygons_incidentEdge maxFloat linearSlop polyA xfA polyB xfB = None"
  shows "b2CollidePolygons maxFloat linearSlop manifold polyA xfA polyB xfB = None"
  using assms
  by (auto simp: b2CollidePolygons_def locals_defs Let_def split: prod.splits option.splits)

lemma collide_clip1:
  assumes "\<not> b2CollidePolygons_separated maxFloat polyA xfA polyB xfB"
    and "b2CollidePolygons_clipPoints1 maxFloat linearSlop polyA xfA polyB xfB = Some clipPoints1"
    and "length clipPoints1 < 2"
  shows "b2CollidePolygons maxFloat linearSlop manifold polyA xfA polyB xfB
         = Some (manifold\<lparr>pointCount := 0,
                           mtype := ref_type (b2CollidePolygons_r maxFloat linearSlop polyA xfA polyB xfB)\<rparr>)"
  using assms
  by (auto simp: b2CollidePolygons_def locals_defs Let_def split: prod.splits option.splits)

lemma collide_clip2:
  assumes "\<not> b2CollidePolygons_separated maxFloat polyA xfA polyB xfB"
    and "b2CollidePolygons_clipPoints1 maxFloat linearSlop polyA xfA polyB xfB = Some clipPoints1"
    and "2 \<le> length clipPoints1"
    and "b2CollidePolygons_clipPoints2 maxFloat linearSlop polyA xfA polyB xfB = Some clipPoints2"
    and "length clipPoints2 < 2"
  shows "b2CollidePolygons maxFloat linearSlop manifold polyA xfA polyB xfB
         = Some (manifold\<lparr>pointCount := 0,
                           mtype := ref_type (b2CollidePolygons_r maxFloat linearSlop polyA xfA polyB xfB)\<rparr>)"
  using assms
  by (auto simp: b2CollidePolygons_def locals_defs Let_def split: prod.splits option.splits)

lemma collide_points:
  assumes "\<not> b2CollidePolygons_separated maxFloat polyA xfA polyB xfB"
    and "b2CollidePolygons_clipPoints1 maxFloat linearSlop polyA xfA polyB xfB = Some clipPoints1"
    and "2 \<le> length clipPoints1"
    and "b2CollidePolygons_clipPoints2 maxFloat linearSlop polyA xfA polyB xfB = Some clipPoints2"
    and "2 \<le> length clipPoints2"
  shows "b2CollidePolygons maxFloat linearSlop manifold polyA xfA polyB xfB
         = Some (b2CollidePolygons_points
                   (manifold\<lparr>pointCount := 0,
                      mtype := ref_type (b2CollidePolygons_r maxFloat linearSlop polyA xfA polyB xfB),
                      localNormal := f_localNormal (b2CollidePolygons_f maxFloat linearSlop polyA xfA polyB xfB),
                      localPoint := f_planePoint (b2CollidePolygons_f maxFloat linearSlop polyA xfA polyB xfB)\<rparr>)
                   clipPoints2
                   (f_normal (b2CollidePolygons_f maxFloat linearSlop polyA xfA polyB xfB))
                   (f_frontOffset (b2CollidePolygons_f maxFloat linearSlop polyA xfA polyB xfB))
                   (b2CollidePolygons_totalRadius polyA polyB)
                   (ref_xf2 (b2CollidePolygons_r maxFloat linearSlop polyA xfA polyB xfB))
                   (ref_flip (b2CollidePolygons_r maxFloat linearSlop polyA xfA polyB xfB)))"
  using assms
  by (auto simp: b2CollidePolygons_def locals_defs Let_def split: prod.splits option.splits)

subsection \<open>The loop over the clipped points\<close>

lemma points_loop:
  assumes len: "length (points manifold) = 2" and c2: "length clipPoints2 = 2"
    and kept_def: "kept = filter (\<lambda>cv. spec_depth normal frontOffset cv \<le> totalRadius) clipPoints2"
    and m_def: "m = b2CollidePolygons_points manifold clipPoints2 normal frontOffset totalRadius xf2 flip"
  shows "pointCount m = int (length kept)"
    and "map cp_localPoint (take (length kept) (points m)) = map (\<lambda>cv. b2MulT_xf xf2 (cv_v cv)) kept"
    and "map cp_id (take (length kept) (points m))
         = map (\<lambda>cv. if flip \<noteq> 0 then spec_swapped (cv_id cv) else cv_id cv) kept"
    and "length (points m) = 2"
    and "mtype m = mtype manifold \<and> localNormal m = localNormal manifold \<and> localPoint m = localPoint manifold"
proof -
  obtain p q where pq: "points manifold = [p, q]"
    using len by (cases "points manifold"; cases "tl (points manifold)") auto
  obtain a b where ab: "clipPoints2 = [a, b]"
    using c2 by (cases clipPoints2; cases "tl clipPoints2") auto
  have loop: "[0..b2_maxManifoldPoints - 1] = [0, 1]"
    by (simp add: b2_maxManifoldPoints_def upto_0_1)
  show "pointCount m = int (length kept)"
    unfolding m_def kept_def b2CollidePolygons_points_def loop
    by (simp add: b2CollidePolygons_point_def spec_depth_def Let_def pq ab)
  show "map cp_localPoint (take (length kept) (points m)) = map (\<lambda>cv. b2MulT_xf xf2 (cv_v cv)) kept"
    unfolding m_def kept_def b2CollidePolygons_points_def loop
    by (simp add: b2CollidePolygons_point_def spec_depth_def Let_def pq ab)
  show "map cp_id (take (length kept) (points m))
         = map (\<lambda>cv. if flip \<noteq> 0 then spec_swapped (cv_id cv) else cv_id cv) kept"
    unfolding m_def kept_def b2CollidePolygons_points_def loop
    by (simp add: b2CollidePolygons_point_def spec_depth_def spec_swapped_def Let_def pq ab)
  show "length (points m) = 2"
    unfolding m_def kept_def b2CollidePolygons_points_def loop
    by (simp add: b2CollidePolygons_point_def spec_depth_def Let_def pq ab)
  show "mtype m = mtype manifold \<and> localNormal m = localNormal manifold \<and> localPoint m = localPoint manifold"
    unfolding m_def kept_def b2CollidePolygons_points_def loop
    by (simp add: b2CollidePolygons_point_def spec_depth_def Let_def pq ab)
qed


lemma clip_length: "length (b2ClipSegmentToLine inPts normal offset tag) \<le> 2"
  by (simp add: b2ClipSegmentToLine_def Let_def)

subsection \<open>A triangle pushed into a square\<close>

lemma upto_0_2: "[0..2::int] = [0, 1, 2]"
  by (simp add: upto.simps)

lemmas eval_defs = b2FindMaxSeparation_def b2FindMaxSeparation_si_def unitSquare_def wedge_def
  xfAt_def fltMax_def slop_def upto_0_3 upto_0_2 vec_defs

lemma sep_ws_A: "b2FindMaxSeparation fltMax (wedge 0) (xfAt (2 / 5) 0) unitSquare (xfAt 0 0) = (0, - 23 / 50)"
  by (simp add: eval_defs)

lemma sep_ws_B: "b2FindMaxSeparation fltMax unitSquare (xfAt 0 0) (wedge 0) (xfAt (2 / 5) 0) = (1, - 1 / 10)"
  by (simp add: eval_defs)

lemma notsep_ws: "\<not> b2CollidePolygons_separated fltMax (wedge 0) (xfAt (2 / 5) 0) unitSquare (xfAt 0 0)"
  by (simp add: b2CollidePolygons_separated_def b2CollidePolygons_totalRadius_def sep_ws_A sep_ws_B)
     (simp add: wedge_def unitSquare_def)

lemma r_ws: "b2CollidePolygons_r fltMax slop (wedge 0) (xfAt (2 / 5) 0) unitSquare (xfAt 0 0)
   = \<lparr>ref_poly1 = unitSquare, ref_poly2 = wedge 0, ref_xf1 = xfAt 0 0, ref_xf2 = xfAt (2 / 5) 0,
       ref_edge1 = 1, ref_type = e_faceB, ref_flip = 1\<rparr>"
  by (simp add: b2CollidePolygons_r_def sep_ws_A sep_ws_B b2CollidePolygons_reference_def slop_def)

lemma f_ws: "b2CollidePolygons_f fltMax slop (wedge 0) (xfAt (2 / 5) 0) unitSquare (xfAt 0 0)
   = \<lparr>f_iv1 = 1, f_iv2 = 2, f_localNormal = Vec2f 1 0, f_planePoint = Vec2f (1 / 2) 0,
       f_tangent = Vec2f 0 1, f_normal = Vec2f 1 0, f_frontOffset = 1 / 2,
       f_sideOffset1 = 1 / 2, f_sideOffset2 = 1 / 2\<rparr>"
  by (simp add: b2CollidePolygons_f_def r_ws b2CollidePolygons_face_def b2CollidePolygons_totalRadius_def)
     (simp add: unitSquare_def wedge_def xfAt_def vec_defs Vec2f_normalize_def Vec2f_length_def)

lemma inc_ws: "b2CollidePolygons_incidentEdge fltMax slop (wedge 0) (xfAt (2 / 5) 0) unitSquare (xfAt 0 0)
   = Some [\<lparr>cv_v = Vec2f (2 / 5) 0, cv_id = \<lparr>indexA = 1, indexB = 0, typeA = e_face, typeB = e_vertex\<rparr>\<rparr>,
           \<lparr>cv_v = Vec2f (22 / 5) (- 3), cv_id = \<lparr>indexA = 1, indexB = 1, typeA = e_face, typeB = e_vertex\<rparr>\<rparr>]"
  by (simp add: b2CollidePolygons_incidentEdge_def r_ws b2FindIncidentEdge_def b2FindIncidentEdge_index_def)
     (simp add: b2FindIncidentEdge_index_def unitSquare_def wedge_def xfAt_def fltMax_def vec_defs
        upto_0_2)

lemma clip1_ws: "b2CollidePolygons_clipPoints1 fltMax slop (wedge 0) (xfAt (2 / 5) 0) unitSquare (xfAt 0 0)
   = Some [\<lparr>cv_v = Vec2f (2 / 5) 0, cv_id = \<lparr>indexA = 1, indexB = 0, typeA = e_face, typeB = e_vertex\<rparr>\<rparr>,
           \<lparr>cv_v = Vec2f (16 / 15) (- 1 / 2), cv_id = \<lparr>indexA = 1, indexB = 0, typeA = e_vertex, typeB = e_face\<rparr>\<rparr>]"
  by (simp add: b2CollidePolygons_clipPoints1_def inc_ws f_ws b2ClipSegmentToLine_def vec_defs)

lemma clip2_ws: "b2CollidePolygons_clipPoints2 fltMax slop (wedge 0) (xfAt (2 / 5) 0) unitSquare (xfAt 0 0)
   = Some [\<lparr>cv_v = Vec2f (2 / 5) 0, cv_id = \<lparr>indexA = 1, indexB = 0, typeA = e_face, typeB = e_vertex\<rparr>\<rparr>,
           \<lparr>cv_v = Vec2f (16 / 15) (- 1 / 2), cv_id = \<lparr>indexA = 1, indexB = 0, typeA = e_vertex, typeB = e_face\<rparr>\<rparr>]"
  by (simp add: b2CollidePolygons_clipPoints2_def clip1_ws f_ws b2ClipSegmentToLine_def vec_defs)

subsection \<open>Two triangles tip to tip\<close>

lemma sqrt_25: "sqrt 25 = 5"
  by (rule real_sqrt_unique) simp_all

lemma sep_ww_A: "b2FindMaxSeparation fltMax (wedge (1 / 5)) (xfAt 0 0) (wedge (1 / 5)) (xfHalfTurn (- (3 / 5)) 0) = (0, 9 / 25)"
  by (simp add: eval_defs xfHalfTurn_def)

lemma sep_ww_B: "b2FindMaxSeparation fltMax (wedge (1 / 5)) (xfHalfTurn (- (3 / 5)) 0) (wedge (1 / 5)) (xfAt 0 0) = (0, 9 / 25)"
  by (simp add: eval_defs xfHalfTurn_def)

lemma notsep_ww: "\<not> b2CollidePolygons_separated fltMax (wedge (1 / 5)) (xfAt 0 0) (wedge (1 / 5)) (xfHalfTurn (- (3 / 5)) 0)"
  by (simp add: b2CollidePolygons_separated_def b2CollidePolygons_totalRadius_def sep_ww_A sep_ww_B)
     (simp add: wedge_def)

lemma r_ww: "b2CollidePolygons_r fltMax slop (wedge (1 / 5)) (xfAt 0 0) (wedge (1 / 5)) (xfHalfTurn (- (3 / 5)) 0)
   = \<lparr>ref_poly1 = wedge (1 / 5), ref_poly2 = wedge (1 / 5), ref_xf1 = xfAt 0 0,
       ref_xf2 = xfHalfTurn (- (3 / 5)) 0, ref_edge1 = 0, ref_type = e_faceA, ref_flip = 0\<rparr>"
  by (simp add: b2CollidePolygons_r_def sep_ww_A sep_ww_B b2CollidePolygons_reference_def slop_def)

lemma f_ww: "b2CollidePolygons_f fltMax slop (wedge (1 / 5)) (xfAt 0 0) (wedge (1 / 5)) (xfHalfTurn (- (3 / 5)) 0)
   = \<lparr>f_iv1 = 0, f_iv2 = 1, f_localNormal = Vec2f (- 3 / 5) (- 4 / 5), f_planePoint = Vec2f 2 (- 3 / 2),
       f_tangent = Vec2f (4 / 5) (- 3 / 5), f_normal = Vec2f (- 3 / 5) (- 4 / 5), f_frontOffset = 0,
       f_sideOffset1 = 2 / 5, f_sideOffset2 = 27 / 5\<rparr>"
  by (simp add: b2CollidePolygons_f_def r_ww b2CollidePolygons_face_def b2CollidePolygons_totalRadius_def)
     (simp add: wedge_def xfAt_def vec_defs Vec2f_normalize_def Vec2f_length_def sqrt_25)

lemma inc_ww: "b2CollidePolygons_incidentEdge fltMax slop (wedge (1 / 5)) (xfAt 0 0) (wedge (1 / 5)) (xfHalfTurn (- (3 / 5)) 0)
   = Some [\<lparr>cv_v = Vec2f (- 3 / 5) 0, cv_id = \<lparr>indexA = 0, indexB = 0, typeA = e_face, typeB = e_vertex\<rparr>\<rparr>,
           \<lparr>cv_v = Vec2f (- 23 / 5) 3, cv_id = \<lparr>indexA = 0, indexB = 1, typeA = e_face, typeB = e_vertex\<rparr>\<rparr>]"
  by (simp add: b2CollidePolygons_incidentEdge_def r_ww b2FindIncidentEdge_def)
     (simp add: b2FindIncidentEdge_index_def wedge_def xfAt_def xfHalfTurn_def fltMax_def vec_defs
        upto_0_2)

lemma clip1_ww: "b2CollidePolygons_clipPoints1 fltMax slop (wedge (1 / 5)) (xfAt 0 0) (wedge (1 / 5)) (xfHalfTurn (- (3 / 5)) 0)
   = Some []"
  by (simp add: b2CollidePolygons_clipPoints1_def inc_ww f_ww b2ClipSegmentToLine_def vec_defs)

subsection \<open>The reference edge\<close>

lemma reference_edge_in_range:
  assumes a: "1 \<le> m_count polyA" and b: "1 \<le> m_count polyB"
    and r_def: "r = b2CollidePolygons_r maxFloat linearSlop polyA xfA polyB xfB"
  shows "0 \<le> ref_edge1 r \<and> ref_edge1 r < m_count (ref_poly1 r)"
proof -
  obtain eA sA where A: "b2FindMaxSeparation maxFloat polyA xfA polyB xfB = (eA, sA)"
    by (cases "b2FindMaxSeparation maxFloat polyA xfA polyB xfB")
  obtain eB sB where B: "b2FindMaxSeparation maxFloat polyB xfB polyA xfA = (eB, sB)"
    by (cases "b2FindMaxSeparation maxFloat polyB xfB polyA xfA")
  from b2FindMaxSeparation_edgeIndex [OF a, of maxFloat xfA polyB xfB]
  have ea: "0 \<le> eA \<and> eA < m_count polyA" by (simp add: A)
  from b2FindMaxSeparation_edgeIndex [OF b, of maxFloat xfB polyA xfA]
  have eb: "0 \<le> eB \<and> eB < m_count polyB" by (simp add: B)
  show ?thesis
    unfolding r_def b2CollidePolygons_r_def A B b2CollidePolygons_reference_def
    using ea eb by (simp add: Let_def)
qed

lemma incident_defined:
  "b2FindIncidentEdge maxFloat poly1 xf1 edge1 poly2 xf2 \<noteq> None
   \<longleftrightarrow> 0 \<le> edge1 \<and> edge1 < m_count poly1"
  by (simp add: b2FindIncidentEdge_def Let_def split: prod.splits)

lemma collide_defined:
  assumes "b2CollidePolygons_incidentEdge maxFloat linearSlop polyA xfA polyB xfB \<noteq> None"
  shows "b2CollidePolygons maxFloat linearSlop manifold polyA xfA polyB xfB \<noteq> None"
  using assms
  by (auto simp: b2CollidePolygons_def locals_defs Let_def split: prod.splits option.splits)

subsection \<open>The point count\<close>


lemma R_ws: "b2CollidePolygons_totalRadius (wedge 0) unitSquare = 0"
  by (simp add: b2CollidePolygons_totalRadius_def wedge_def unitSquare_def)

subsection \<open>The search for the incident edge\<close>

lemma uint_index: "0 \<le> k \<Longrightarrow> k < 256 \<Longrightarrow> uint (word_of_int k :: 8 word) = k"
  by (simp add: uint_word_of_int_eq take_bit_int_eq_self)

lemma b2FindIncidentEdge_index_min:
  assumes res: "b2FindIncidentEdge_index maxFloat normal1 normals2 count2 = (index, minDot)"
    and c2: "1 \<le> count2"
    and fin: "\<forall>i\<in>{0..<count2}. b2Dot normal1 (normals2 ! nat i) \<le> maxFloat"
  shows "0 \<le> index \<and> index < count2
         \<and> (\<forall>i\<in>{0..<count2}. b2Dot normal1 (normals2 ! nat index) \<le> b2Dot normal1 (normals2 ! nat i))"
proof -
  let ?h = "\<lambda>i. b2Dot normal1 (normals2 ! nat i)"
  have "fold (\<lambda>i (b, m). let s = ?h i in if s < m then (i, s) else (b, m)) [0..count2 - 1] (0, maxFloat)
          = (index, minDot)"
    using res unfolding b2FindIncidentEdge_index_def .
  from fold_argmin [OF this]
  have lb: "\<forall>i\<in>{0..<count2}. minDot \<le> ?h i"
    and at: "(index = 0 \<and> minDot = maxFloat) \<or> (index \<in> {0..<count2} \<and> ?h index = minDot)"
    unfolding set_upto_less by blast+
  have zero: "0 \<in> {0..<count2}" using c2 by simp
  have "index \<in> {0..<count2} \<and> ?h index = minDot"
  proof (rule disjE [OF at])
    assume a: "index = 0 \<and> minDot = maxFloat"
    with lb zero fin show ?thesis by fastforce
  qed simp
  with lb show ?thesis by simp
qed

subsection \<open>The boundary point of the clipper\<close>

lemma b2Dot_affine:
  "b2Dot n (Vec2f_add p (Vec2f_scale t (Vec2f_sub q p))) = b2Dot n p + t * (b2Dot n q - b2Dot n p)"
  by (simp add: vec_defs algebra_simps)

lemma boundary_on_line:
  assumes ne: "d0 \<noteq> (d1::real)"
    and d0: "d0 = b2Dot normal p0 - offset" and d1: "d1 = b2Dot normal p1 - offset"
  shows "b2Dot normal (Vec2f_add p0 (Vec2f_scale (d0 / (d0 - d1)) (Vec2f_sub p1 p0))) - offset = 0"
proof -
  define t where "t = d0 / (d0 - d1)"
  have t: "t * (d0 - d1) = d0" using ne by (simp add: t_def)
  have "b2Dot normal p1 - b2Dot normal p0 = d1 - d0"
    unfolding d0 d1 by simp
  then have "b2Dot normal (Vec2f_add p0 (Vec2f_scale t (Vec2f_sub p1 p0))) - offset
        = d0 + t * (d1 - d0)"
    unfolding b2Dot_affine by (simp add: d0)
  also have "t * (d1 - d0) = - (t * (d0 - d1))"
    by (simp add: algebra_simps)
  also have "d0 + - (t * (d0 - d1)) = 0"
    unfolding t by simp
  finally show ?thesis unfolding t_def .
qed

subsection \<open>The manifold type\<close>

lemma collide_type:
  assumes "\<not> b2CollidePolygons_separated maxFloat polyA xfA polyB xfB"
    and "b2CollidePolygons maxFloat linearSlop manifold polyA xfA polyB xfB = Some m"
  shows "mtype m = ref_type (b2CollidePolygons_r maxFloat linearSlop polyA xfA polyB xfB)"
proof (cases "b2CollidePolygons_incidentEdge maxFloat linearSlop polyA xfA polyB xfB")
  case None
  from collide_assert [OF assms(1) this] assms(2) show ?thesis by simp
next
  case (Some inc)
  then obtain c1 c2 where c1: "b2CollidePolygons_clipPoints1 maxFloat linearSlop polyA xfA polyB xfB = Some c1"
    and c2: "b2CollidePolygons_clipPoints2 maxFloat linearSlop polyA xfA polyB xfB = Some c2"
    by (simp add: b2CollidePolygons_clipPoints1_def b2CollidePolygons_clipPoints2_def Let_def)
  consider "length c1 < 2" | "2 \<le> length c1" "length c2 < 2" | "2 \<le> length c1" "2 \<le> length c2"
    by linarith
  then show ?thesis
  proof cases
    case 1
    from collide_clip1 [OF assms(1) c1 this] assms(2) show ?thesis by auto
  next
    case 2
    from collide_clip2 [OF assms(1) c1 2(1) c2 2(2)] assms(2) show ?thesis by auto
  next
    case 3
    have loop: "[0..b2_maxManifoldPoints - 1] = [0, 1]"
      by (simp add: b2_maxManifoldPoints_def upto_0_1)
    have "mtype (b2CollidePolygons_points m0 cs n fo R x fl) = mtype m0" for m0 cs n fo R x fl
      unfolding b2CollidePolygons_points_def loop
      by (simp add: b2CollidePolygons_point_def Let_def)
    with collide_points [OF assms(1) c1 3(1) c2 3(2)] assms(2) show ?thesis by auto
  qed
qed

subsection \<open>A tilted square in a square\<close>

lemma sep_t1_A: "b2FindMaxSeparation fltMax unitSquare (xfAt 0 0) unitSquare (xfTilted (2007 / 10000) (- (3 / 5))) = (0, - 3 / 5)"
  by (simp add: eval_defs xfTilted_def)

lemma sep_t1_B: "b2FindMaxSeparation fltMax unitSquare (xfTilted (2007 / 10000) (- (3 / 5))) unitSquare (xfAt 0 0) = (2, - 29979 / 50000)"
  by (simp add: eval_defs xfTilted_def)

lemma sep_t2_A: "b2FindMaxSeparation fltMax unitSquare (xfAt 0 0) unitSquare (xfTilted (201 / 1000) (- (3 / 5))) = (0, - 3 / 5)"
  by (simp add: eval_defs xfTilted_def)

lemma sep_t2_B: "b2FindMaxSeparation fltMax unitSquare (xfTilted (201 / 1000) (- (3 / 5))) unitSquare (xfAt 0 0) = (2, - 2997 / 5000)"
  by (simp add: eval_defs xfTilted_def)

lemma collide_some_type:
  assumes a: "1 \<le> m_count polyA" and b: "1 \<le> m_count polyB"
    and ns: "\<not> b2CollidePolygons_separated maxFloat polyA xfA polyB xfB"
  shows "map_option mtype (b2CollidePolygons maxFloat linearSlop manifold polyA xfA polyB xfB)
         = Some (ref_type (b2CollidePolygons_r maxFloat linearSlop polyA xfA polyB xfB))"
proof -
  from reference_edge_in_range [OF a b refl]
  have "b2CollidePolygons_incidentEdge maxFloat linearSlop polyA xfA polyB xfB \<noteq> None"
    unfolding b2CollidePolygons_incidentEdge_def Let_def incident_defined .
  from collide_defined [OF this]
  obtain m where m: "b2CollidePolygons maxFloat linearSlop manifold polyA xfA polyB xfB = Some m"
    by blast
  from collide_type [OF ns m] m show ?thesis by simp
qed

lemma notsep_t1: "\<not> b2CollidePolygons_separated fltMax unitSquare (xfAt 0 0) unitSquare (xfTilted (2007 / 10000) (- (3 / 5)))"
  by (simp add: b2CollidePolygons_separated_def b2CollidePolygons_totalRadius_def sep_t1_A sep_t1_B)
     (simp add: unitSquare_def)

lemma notsep_t2: "\<not> b2CollidePolygons_separated fltMax unitSquare (xfAt 0 0) unitSquare (xfTilted (201 / 1000) (- (3 / 5)))"
  by (simp add: b2CollidePolygons_separated_def b2CollidePolygons_totalRadius_def sep_t2_A sep_t2_B)
     (simp add: unitSquare_def)

lemma r_t1: "ref_type (b2CollidePolygons_r fltMax slop unitSquare (xfAt 0 0) unitSquare (xfTilted (2007 / 10000) (- (3 / 5)))) = e_faceA"
  by (simp add: b2CollidePolygons_r_def sep_t1_A sep_t1_B b2CollidePolygons_reference_def slop_def)

lemma r_t2: "ref_type (b2CollidePolygons_r fltMax slop unitSquare (xfAt 0 0) unitSquare (xfTilted (201 / 1000) (- (3 / 5)))) = e_faceB"
  by (simp add: b2CollidePolygons_r_def sep_t2_A sep_t2_B b2CollidePolygons_reference_def slop_def)

subsection \<open>The time of impact driver\<close>

lemma step_terminal:
  "out_state out \<noteq> e_unknown \<Longrightarrow> cb2TimeOfImpact_step ext input out = out"
  by (simp add: cb2TimeOfImpact_step_def)

lemma step_inv:
  assumes "0 \<le> out_t out \<and> out_t out \<le> tMax input" and "0 \<le> ext_nearZero ext"
  shows "0 \<le> out_t (cb2TimeOfImpact_step ext input out)
       \<and> out_t (cb2TimeOfImpact_step ext input out) \<le> tMax input"
proof -
  have adv: "0 \<le> min (tMax input) (out_t out + (d - b) / k)"
    if "b < d" "ext_nearZero ext < k" for d b k :: real
  proof -
    from that assms(2) have "0 \<le> (d - b) / k" by simp
    with assms(1) show ?thesis by simp
  qed
  show ?thesis
    using assms(1) adv
    by (auto simp: cb2TimeOfImpact_step_def Let_def not_le)
qed

lemma loop_inv:
  assumes "0 \<le> out_t out \<and> out_t out \<le> tMax input" and "0 \<le> ext_nearZero ext"
  shows "out_state (cb2TimeOfImpact_loop n ext input out) \<noteq> e_unknown
       \<and> 0 \<le> out_t (cb2TimeOfImpact_loop n ext input out)
       \<and> out_t (cb2TimeOfImpact_loop n ext input out) \<le> tMax input"
  using assms(1)
proof (induction n arbitrary: out)
  case 0
  then show ?case by simp
next
  case (Suc n)
  show ?case
  proof (cases "out_state out = e_unknown")
    case True
    from step_inv [OF Suc.prems assms(2)] have "0 \<le> out_t (cb2TimeOfImpact_step ext input out)
       \<and> out_t (cb2TimeOfImpact_step ext input out) \<le> tMax input" .
    from Suc.IH [OF this] True show ?thesis by simp
  next
    case False
    with Suc.prems show ?thesis by simp
  qed
qed

lemma headOn_3: "cb2TimeOfImpact headOn (headOnInput 3) = \<lparr>out_state = e_touching, out_t = 199 / 100\<rparr>"
  by (simp add: cb2TimeOfImpact_def headOn_def headOnInput_def eval_nat_numeral
      cb2TimeOfImpact_step_def Let_def)

lemma headOn_1: "cb2TimeOfImpact headOn (headOnInput 1) = \<lparr>out_state = e_separated, out_t = 1\<rparr>"
  by (simp add: cb2TimeOfImpact_def headOn_def headOnInput_def eval_nat_numeral
      cb2TimeOfImpact_step_def Let_def)

subsection \<open>Two squares side by side, and the chosen reference\<close>

lemma sep_sq1_A: "b2FindMaxSeparation fltMax unitSquare (xfAt 0 0) unitSquare (xfAt (9 / 10) 0) = (1, - 1 / 10)"
  by (simp add: eval_defs)

lemma sep_sq1_B: "b2FindMaxSeparation fltMax unitSquare (xfAt (9 / 10) 0) unitSquare (xfAt 0 0) = (3, - 1 / 10)"
  by (simp add: eval_defs)

lemma sep_sq2_A: "b2FindMaxSeparation fltMax unitSquare (xfAt 0 0) unitSquare (xfAt (9001 / 10000) 0) = (1, - 999 / 10000)"
  by (simp add: eval_defs)

lemma sep_sq2_B: "b2FindMaxSeparation fltMax unitSquare (xfAt (9001 / 10000) 0) unitSquare (xfAt 0 0) = (3, - 999 / 10000)"
  by (simp add: eval_defs)

lemma notsep_sq1: "\<not> b2CollidePolygons_separated fltMax unitSquare (xfAt 0 0) unitSquare (xfAt (9 / 10) 0)"
  by (simp add: b2CollidePolygons_separated_def b2CollidePolygons_totalRadius_def sep_sq1_A sep_sq1_B)
     (simp add: unitSquare_def)

lemma notsep_sq2: "\<not> b2CollidePolygons_separated fltMax unitSquare (xfAt 0 0) unitSquare (xfAt (9001 / 10000) 0)"
  by (simp add: b2CollidePolygons_separated_def b2CollidePolygons_totalRadius_def sep_sq2_A sep_sq2_B)
     (simp add: unitSquare_def)

lemma reference_by_separations:
  "b2CollidePolygons_r maxFloat linearSlop polyA xfA polyB xfB =
     (if snd (b2FindMaxSeparation maxFloat polyB xfB polyA xfA)
           > snd (b2FindMaxSeparation maxFloat polyA xfA polyB xfB) + 0.1 * linearSlop
      then \<lparr>ref_poly1 = polyB, ref_poly2 = polyA, ref_xf1 = xfB, ref_xf2 = xfA,
            ref_edge1 = fst (b2FindMaxSeparation maxFloat polyB xfB polyA xfA),
            ref_type = e_faceB, ref_flip = 1\<rparr>
      else \<lparr>ref_poly1 = polyA, ref_poly2 = polyB, ref_xf1 = xfA, ref_xf2 = xfB,
            ref_edge1 = fst (b2FindMaxSeparation maxFloat polyA xfA polyB xfB),
            ref_type = e_faceA, ref_flip = 0\<rparr>)"
  by (simp add: b2CollidePolygons_r_def b2CollidePolygons_reference_def Let_def split: prod.splits)

subsection \<open>Claims\<close>

text \<open>
  C1. If the best separation found with A as reference, or the best separation found
  with B as reference, exceeds the sum of the skin radii of the two polygons, then
  \<^verbatim>\<open>b2CollidePolygons\<close> returns a manifold with \<open>pointCount = 0\<close>.
\<close>

theorem b2CollidePolygons_separated_no_contact:
  assumes "snd (b2FindMaxSeparation maxFloat polyA xfA polyB xfB) > m_radius polyA + m_radius polyB
         \<or> snd (b2FindMaxSeparation maxFloat polyB xfB polyA xfA) > m_radius polyA + m_radius polyB"
  shows "\<exists>m. b2CollidePolygons maxFloat linearSlop manifold polyA xfA polyB xfB = Some m
             \<and> pointCount m = 0"
proof -
  from assms have "b2CollidePolygons_separated maxFloat polyA xfA polyB xfB"
    by (simp add: b2CollidePolygons_separated_def b2CollidePolygons_totalRadius_def)
  from collide_separated [OF this] show ?thesis by simp
qed

theorem b2CollidePolygons_separated_no_contact_witness:
  "\<exists>m. b2CollidePolygons fltMax slop oldManifold unitSquare (xfAt 0 0) unitSquare (xfAt (3 / 2) 0) = Some m
       \<and> pointCount m = 0"
proof -
  have "snd (b2FindMaxSeparation fltMax unitSquare (xfAt 0 0) unitSquare (xfAt (3 / 2) 0))
          > m_radius unitSquare + m_radius unitSquare"
    by (simp add: sep_far_A) (simp add: unitSquare_def)
  then show ?thesis
    using b2CollidePolygons_separated_no_contact
      [of unitSquare unitSquare fltMax "xfAt 0 0" "xfAt (3 / 2) 0" slop oldManifold]
    by blast
qed

text \<open>
  C2. For a reference polygon with at least one face and another polygon with at least
  one vertex, whose projections are finite floats, \<^verbatim>\<open>b2FindMaxSeparation\<close> returns the
  maximum over the faces of the reference polygon of the minimum over the vertices of
  the other polygon of the signed projection of the vertex, relative to the first vertex
  of the face, onto the normal of the face, both in the frame of the other polygon; the
  edge index is the index of a face where the maximum is attained.
\<close>

theorem b2FindMaxSeparation_max_min:
  assumes c1: "1 \<le> m_count poly1" and c2: "1 \<le> m_count poly2"
    and fin: "\<forall>i\<in>{0..<m_count poly1}. \<forall>j\<in>{0..<m_count poly2}.
                - maxFloat \<le> spec_projection poly1 xf1 poly2 xf2 i j
              \<and> spec_projection poly1 xf1 poly2 xf2 i j \<le> maxFloat"
    and res: "b2FindMaxSeparation maxFloat poly1 xf1 poly2 xf2 = (edgeIndex, separation)"
  shows "separation = spec_maxSeparation poly1 xf1 poly2 xf2
       \<and> 0 \<le> edgeIndex \<and> edgeIndex < m_count poly1
       \<and> spec_faceSeparation poly1 xf1 poly2 xf2 edgeIndex = separation"
proof -
  let ?P = "spec_projection poly1 xf1 poly2 xf2"
  let ?F = "spec_faceSeparation poly1 xf1 poly2 xf2"
  let ?J = "{0..<m_count poly2}"
  let ?I = "{0..<m_count poly1}"
  have Jne: "?J \<noteq> {}" and Ine: "?I \<noteq> {}" using c1 c2 by auto
  have face: "Min (insert maxFloat (?P i ` ?J)) = ?F i" if "i \<in> ?I" for i
  proof -
    have "Min (insert maxFloat (?P i ` ?J)) = min maxFloat (Min (?P i ` ?J))"
      using Jne by simp
    moreover have "Min (?P i ` ?J) \<le> maxFloat"
      using fin that Jne by (auto simp: Min_le_iff)
    ultimately show ?thesis by (simp add: spec_faceSeparation_def min_def)
  qed
  have lower: "- maxFloat \<le> ?F i" if "i \<in> ?I" for i
    unfolding spec_faceSeparation_def using fin that Jne by simp
  from b2FindMaxSeparation_loop [OF res, unfolded h_eq_spec]
  have ub: "\<forall>i\<in>?I. Min (insert maxFloat (?P i ` ?J)) \<le> separation"
    and at: "(edgeIndex = 0 \<and> separation = - maxFloat)
             \<or> (edgeIndex \<in> ?I \<and> Min (insert maxFloat (?P edgeIndex ` ?J)) = separation)"
    by blast+
  have ub': "\<forall>i\<in>?I. ?F i \<le> separation" using ub face by simp
  have zero: "0 \<in> ?I" using c1 by simp
  have e: "edgeIndex \<in> ?I \<and> ?F edgeIndex = separation"
  proof (rule disjE [OF at])
    assume a: "edgeIndex = 0 \<and> separation = - maxFloat"
    with ub' zero lower [OF zero] show ?thesis by fastforce
  next
    assume a: "edgeIndex \<in> ?I \<and> Min (insert maxFloat (?P edgeIndex ` ?J)) = separation"
    then have "edgeIndex \<in> ?I" by blast
    from face [OF this] a show ?thesis by metis
  qed
  have "Max (?F ` ?I) = separation"
  proof (rule Max_eqI)
    show "finite (?F ` ?I)" by simp
    show "\<And>y. y \<in> ?F ` ?I \<Longrightarrow> y \<le> separation" using ub' by auto
    show "separation \<in> ?F ` ?I" using e by auto
  qed
  then show ?thesis using e by (simp add: spec_maxSeparation_def)
qed

theorem b2FindMaxSeparation_max_min_witness:
  "spec_maxSeparation unitSquare (xfAt 0 0) unitSquare (xfAt (3 / 2) 0) = 1 / 2
   \<and> spec_faceSeparation unitSquare (xfAt 0 0) unitSquare (xfAt (3 / 2) 0) 1 = 1 / 2"
proof -
  have fin: "\<forall>i\<in>{0..<m_count unitSquare}. \<forall>j\<in>{0..<m_count unitSquare}.
                - fltMax \<le> spec_projection unitSquare (xfAt 0 0) unitSquare (xfAt (3 / 2) 0) i j
              \<and> spec_projection unitSquare (xfAt 0 0) unitSquare (xfAt (3 / 2) 0) i j \<le> fltMax"
    by (simp add: ivl_0_4 spec_projection_def unitSquare_def xfAt_def
        fltMax_def vec_defs)
  have c: "1 \<le> m_count unitSquare" by (simp add: unitSquare_def)
  from b2FindMaxSeparation_max_min [OF c c fin sep_far_A] show ?thesis by simp
qed

text \<open>
  C3. After neither separation exceeds the total skin radius, polygon B is the reference
  (manifold type \<open>e_faceB\<close>, \<open>flip = 1\<close>) if and only if
  \<open>separationB > separationA + k_tol\<close> with \<open>k_tol = 0.1 * b2_linearSlop\<close>; in every
  other case polygon A is the reference. The claim goes on: hence a perturbation of the
  transforms that changes the separations by less than the tolerance cannot flip which
  shape is the reference. That is not so. A unit square lies in a unit square, tilted; it
  is moved by 0.0003, less than the tolerance 0.0005 that \<open>b2_linearSlop = 0.005\<close>
  gives; both separations change by less than the tolerance, and the reference goes from
  A to B.
\<close>

theorem reference_flips_below_tolerance:
  "\<bar>201 / 1000 - 2007 / 10000\<bar> < 0.1 * slop
   \<and> \<bar>snd (b2FindMaxSeparation fltMax unitSquare (xfAt 0 0) unitSquare (xfTilted (201 / 1000) (- (3 / 5))))
       - snd (b2FindMaxSeparation fltMax unitSquare (xfAt 0 0) unitSquare (xfTilted (2007 / 10000) (- (3 / 5))))\<bar>
       < 0.1 * slop
   \<and> \<bar>snd (b2FindMaxSeparation fltMax unitSquare (xfTilted (201 / 1000) (- (3 / 5))) unitSquare (xfAt 0 0))
       - snd (b2FindMaxSeparation fltMax unitSquare (xfTilted (2007 / 10000) (- (3 / 5))) unitSquare (xfAt 0 0))\<bar>
       < 0.1 * slop
   \<and> map_option mtype (b2CollidePolygons fltMax slop oldManifold unitSquare (xfAt 0 0)
                          unitSquare (xfTilted (2007 / 10000) (- (3 / 5)))) = Some e_faceA
   \<and> map_option mtype (b2CollidePolygons fltMax slop oldManifold unitSquare (xfAt 0 0)
                          unitSquare (xfTilted (201 / 1000) (- (3 / 5)))) = Some e_faceB"
proof -
  have c: "1 \<le> m_count unitSquare" by (simp add: unitSquare_def)
  show ?thesis
    unfolding collide_some_type [OF c c notsep_t1] collide_some_type [OF c c notsep_t2]
      sep_t1_A sep_t1_B sep_t2_A sep_t2_B r_t1 r_t2
    by (simp add: slop_def)
qed

text \<open>
  C3, amended. Both polygons have at least one vertex and neither separation exceeds the
  total skin radius. Then \<^verbatim>\<open>b2CollidePolygons\<close> returns a manifold of type \<open>e_faceB\<close>,
  with polygon B as the reference and \<open>flip = 1\<close>, if and only if
  \<open>separationB > separationA + k_tol\<close>, where the separations are those that
  \<^verbatim>\<open>b2FindMaxSeparation\<close> computes and \<open>k_tol = 0.1 * b2_linearSlop\<close>; in every other
  case the manifold has type \<open>e_faceA\<close>, polygon A is the reference and \<open>flip = 0\<close>.
  What the tolerance gives is this: when \<open>separationB \<le> separationA\<close> and the transforms
  are then changed so that each separation changes by at most half the tolerance (and
  neither exceeds the total skin radius), the manifold still has type \<open>e_faceA\<close> and A
  is still the reference.
\<close>

theorem b2CollidePolygons_reference_tolerance:
  assumes cA: "1 \<le> m_count polyA" and cB: "1 \<le> m_count polyB"
    and ns: "\<not> b2CollidePolygons_separated maxFloat polyA xfA polyB xfB"
    and ns': "\<not> b2CollidePolygons_separated maxFloat polyA xfA' polyB xfB'"
    and sA: "separationA = snd (b2FindMaxSeparation maxFloat polyA xfA polyB xfB)"
    and sB: "separationB = snd (b2FindMaxSeparation maxFloat polyB xfB polyA xfA)"
    and sA': "separationA' = snd (b2FindMaxSeparation maxFloat polyA xfA' polyB xfB')"
    and sB': "separationB' = snd (b2FindMaxSeparation maxFloat polyB xfB' polyA xfA')"
    and r: "r = b2CollidePolygons_r maxFloat linearSlop polyA xfA polyB xfB"
    and r': "r' = b2CollidePolygons_r maxFloat linearSlop polyA xfA' polyB xfB'"
  shows "(map_option mtype (b2CollidePolygons maxFloat linearSlop manifold polyA xfA polyB xfB) = Some e_faceB)
           = (separationB > separationA + 0.1 * linearSlop)
       \<and> (separationB > separationA + 0.1 * linearSlop \<longrightarrow>
            map_option mtype (b2CollidePolygons maxFloat linearSlop manifold polyA xfA polyB xfB)
              = Some e_faceB
            \<and> r = \<lparr>ref_poly1 = polyB, ref_poly2 = polyA, ref_xf1 = xfB, ref_xf2 = xfA,
                    ref_edge1 = fst (b2FindMaxSeparation maxFloat polyB xfB polyA xfA),
                    ref_type = e_faceB, ref_flip = 1\<rparr>)
       \<and> (\<not> separationB > separationA + 0.1 * linearSlop \<longrightarrow>
            map_option mtype (b2CollidePolygons maxFloat linearSlop manifold polyA xfA polyB xfB)
              = Some e_faceA
            \<and> r = \<lparr>ref_poly1 = polyA, ref_poly2 = polyB, ref_xf1 = xfA, ref_xf2 = xfB,
                    ref_edge1 = fst (b2FindMaxSeparation maxFloat polyA xfA polyB xfB),
                    ref_type = e_faceA, ref_flip = 0\<rparr>)
       \<and> (separationB \<le> separationA
            \<and> \<bar>separationA' - separationA\<bar> \<le> 0.1 * linearSlop / 2
            \<and> \<bar>separationB' - separationB\<bar> \<le> 0.1 * linearSlop / 2 \<longrightarrow>
            map_option mtype (b2CollidePolygons maxFloat linearSlop manifold' polyA xfA' polyB xfB')
              = Some e_faceA
            \<and> r' = \<lparr>ref_poly1 = polyA, ref_poly2 = polyB, ref_xf1 = xfA', ref_xf2 = xfB',
                     ref_edge1 = fst (b2FindMaxSeparation maxFloat polyA xfA' polyB xfB'),
                     ref_type = e_faceA, ref_flip = 0\<rparr>)"
proof -
  note ty = collide_some_type [OF cA cB ns, of linearSlop manifold]
  note ty' = collide_some_type [OF cA cB ns', of linearSlop manifold']
  have B: "map_option mtype (b2CollidePolygons maxFloat linearSlop manifold polyA xfA polyB xfB)
              = Some e_faceB
            \<and> r = \<lparr>ref_poly1 = polyB, ref_poly2 = polyA, ref_xf1 = xfB, ref_xf2 = xfA,
                    ref_edge1 = fst (b2FindMaxSeparation maxFloat polyB xfB polyA xfA),
                    ref_type = e_faceB, ref_flip = 1\<rparr>"
    if "separationB > separationA + 0.1 * linearSlop"
    using that unfolding ty r reference_by_separations sA sB by simp
  have A: "map_option mtype (b2CollidePolygons maxFloat linearSlop manifold polyA xfA polyB xfB)
              = Some e_faceA
            \<and> r = \<lparr>ref_poly1 = polyA, ref_poly2 = polyB, ref_xf1 = xfA, ref_xf2 = xfB,
                    ref_edge1 = fst (b2FindMaxSeparation maxFloat polyA xfA polyB xfB),
                    ref_type = e_faceA, ref_flip = 0\<rparr>"
    if "\<not> separationB > separationA + 0.1 * linearSlop"
    using that unfolding ty r reference_by_separations sA sB by simp
  have S: "map_option mtype (b2CollidePolygons maxFloat linearSlop manifold' polyA xfA' polyB xfB')
              = Some e_faceA
            \<and> r' = \<lparr>ref_poly1 = polyA, ref_poly2 = polyB, ref_xf1 = xfA', ref_xf2 = xfB',
                     ref_edge1 = fst (b2FindMaxSeparation maxFloat polyA xfA' polyB xfB'),
                     ref_type = e_faceA, ref_flip = 0\<rparr>"
    if h: "separationB \<le> separationA
            \<and> \<bar>separationA' - separationA\<bar> \<le> 0.1 * linearSlop / 2
            \<and> \<bar>separationB' - separationB\<bar> \<le> 0.1 * linearSlop / 2"
  proof -
    from h have "separationB' \<le> separationB + 0.1 * linearSlop / 2"
      and "separationA \<le> separationA' + 0.1 * linearSlop / 2"
      by linarith+
    with h have "\<not> separationB' > separationA' + 0.1 * linearSlop" by linarith
    then show ?thesis
      unfolding ty' r' reference_by_separations sA' sB' by simp
  qed
  have iff: "(map_option mtype (b2CollidePolygons maxFloat linearSlop manifold polyA xfA polyB xfB) = Some e_faceB)
           = (separationB > separationA + 0.1 * linearSlop)"
  proof (cases "separationB > separationA + 0.1 * linearSlop")
    case True
    with B show ?thesis by simp
  next
    case False
    from A [OF False]
    have "map_option mtype (b2CollidePolygons maxFloat linearSlop manifold polyA xfA polyB xfB)
            = Some e_faceA"
      by (rule conjunct1)
    with False show ?thesis by (simp only:) simp
  qed
  from iff A B S show ?thesis by blast
qed

theorem b2CollidePolygons_reference_tolerance_witness:
  "map_option mtype (b2CollidePolygons fltMax slop oldManifold (wedge 0) (xfAt (2 / 5) 0) unitSquare (xfAt 0 0))
     = Some e_faceB
   \<and> ref_flip (b2CollidePolygons_r fltMax slop (wedge 0) (xfAt (2 / 5) 0) unitSquare (xfAt 0 0)) = 1
   \<and> map_option mtype (b2CollidePolygons fltMax slop oldManifold unitSquare (xfAt 0 0) unitSquare (xfAt (9 / 10) 0))
     = Some e_faceA
   \<and> ref_flip (b2CollidePolygons_r fltMax slop unitSquare (xfAt 0 0) unitSquare (xfAt (9 / 10) 0)) = 0
   \<and> map_option mtype (b2CollidePolygons fltMax slop oldManifold unitSquare (xfAt 0 0) unitSquare (xfAt (9001 / 10000) 0))
     = Some e_faceA
   \<and> ref_flip (b2CollidePolygons_r fltMax slop unitSquare (xfAt 0 0) unitSquare (xfAt (9001 / 10000) 0)) = 0"
proof -
  have cw: "1 \<le> m_count (wedge 0)" and cs: "1 \<le> m_count unitSquare"
    by (simp_all add: wedge_def unitSquare_def)
  have B: "snd (b2FindMaxSeparation fltMax unitSquare (xfAt 0 0) (wedge 0) (xfAt (2 / 5) 0))
            > snd (b2FindMaxSeparation fltMax (wedge 0) (xfAt (2 / 5) 0) unitSquare (xfAt 0 0)) + 0.1 * slop"
    by (simp add: sep_ws_A sep_ws_B slop_def)
  have A: "\<not> snd (b2FindMaxSeparation fltMax unitSquare (xfAt (9 / 10) 0) unitSquare (xfAt 0 0))
            > snd (b2FindMaxSeparation fltMax unitSquare (xfAt 0 0) unitSquare (xfAt (9 / 10) 0)) + 0.1 * slop"
    by (simp add: sep_sq1_A sep_sq1_B slop_def)
  have S: "snd (b2FindMaxSeparation fltMax unitSquare (xfAt (9 / 10) 0) unitSquare (xfAt 0 0))
              \<le> snd (b2FindMaxSeparation fltMax unitSquare (xfAt 0 0) unitSquare (xfAt (9 / 10) 0))
         \<and> \<bar>snd (b2FindMaxSeparation fltMax unitSquare (xfAt 0 0) unitSquare (xfAt (9001 / 10000) 0))
             - snd (b2FindMaxSeparation fltMax unitSquare (xfAt 0 0) unitSquare (xfAt (9 / 10) 0))\<bar>
              \<le> 0.1 * slop / 2
         \<and> \<bar>snd (b2FindMaxSeparation fltMax unitSquare (xfAt (9001 / 10000) 0) unitSquare (xfAt 0 0))
             - snd (b2FindMaxSeparation fltMax unitSquare (xfAt (9 / 10) 0) unitSquare (xfAt 0 0))\<bar>
              \<le> 0.1 * slop / 2"
    by (simp add: sep_sq1_A sep_sq1_B sep_sq2_A sep_sq2_B slop_def)
  note t1 = b2CollidePolygons_reference_tolerance
    [OF cw cs notsep_ws notsep_ws refl refl refl refl refl refl,
      where linearSlop = slop and manifold = oldManifold and manifold' = oldManifold]
  note t2 = b2CollidePolygons_reference_tolerance
    [OF cs cs notsep_sq1 notsep_sq2 refl refl refl refl refl refl,
      where linearSlop = slop and manifold = oldManifold and manifold' = oldManifold]
  from t1 [THEN conjunct2, THEN conjunct1, rule_format, OF B]
    t2 [THEN conjunct2, THEN conjunct2, THEN conjunct1, rule_format, OF A]
    t2 [THEN conjunct2, THEN conjunct2, THEN conjunct2, rule_format, OF S]
  show ?thesis by simp
qed

text \<open>
  C4. For a valid reference edge index, \<^verbatim>\<open>b2FindIncidentEdge\<close> selects on the incident
  polygon an edge \<open>index\<close> whose normal has the minimum dot product with the reference
  face normal, taken in the frame of the incident polygon, and returns the two end points
  of that edge, vertex \<open>index\<close> and its successor, in world space; each is tagged with
  the reference edge index and type face for shape 1, and with its own vertex index and
  type vertex for shape 2. The incident polygon has at least one edge, the dot products
  are finite floats, and the counts fit the \<^verbatim>\<open>unsigned char\<close> of the tags.
\<close>

theorem b2FindIncidentEdge_most_antiparallel:
  assumes valid: "0 \<le> edge1 \<and> edge1 < m_count poly1"
    and c2: "1 \<le> m_count poly2"
    and small: "m_count poly1 \<le> 256 \<and> m_count poly2 \<le> 256"
    and fin: "\<forall>i\<in>{0..<m_count poly2}. spec_incidentDot poly1 xf1 edge1 poly2 xf2 i \<le> maxFloat"
  shows "\<exists>index c0 c1.
           b2FindIncidentEdge maxFloat poly1 xf1 edge1 poly2 xf2 = Some [c0, c1]
         \<and> 0 \<le> index \<and> index < m_count poly2
         \<and> (\<forall>i\<in>{0..<m_count poly2}.
               spec_incidentDot poly1 xf1 edge1 poly2 xf2 index
                 \<le> spec_incidentDot poly1 xf1 edge1 poly2 xf2 i)
         \<and> cv_v c0 = b2Mul_xf xf2 (m_vertices poly2 ! nat index)
         \<and> cv_v c1 = b2Mul_xf xf2 (m_vertices poly2 ! nat ((index + 1) mod m_count poly2))
         \<and> uint (indexA (cv_id c0)) = edge1 \<and> typeA (cv_id c0) = e_face
         \<and> uint (indexB (cv_id c0)) = index \<and> typeB (cv_id c0) = e_vertex
         \<and> uint (indexA (cv_id c1)) = edge1 \<and> typeA (cv_id c1) = e_face
         \<and> uint (indexB (cv_id c1)) = (index + 1) mod m_count poly2 \<and> typeB (cv_id c1) = e_vertex"
proof -
  let ?n1 = "b2MulT_rot (xf_q xf2) (b2Mul_rot (xf_q xf1) (m_normals poly1 ! nat edge1))"
  obtain index minDot where
    idx: "b2FindIncidentEdge_index maxFloat ?n1 (m_normals poly2) (m_count poly2) = (index, minDot)"
    by (cases "b2FindIncidentEdge_index maxFloat ?n1 (m_normals poly2) (m_count poly2)")
  have fin': "\<forall>i\<in>{0..<m_count poly2}. b2Dot ?n1 (m_normals poly2 ! nat i) \<le> maxFloat"
    using fin by (simp add: spec_incidentDot_def)
  from b2FindIncidentEdge_index_min [OF idx c2 fin']
  have rng: "0 \<le> index \<and> index < m_count poly2"
    and mn: "\<forall>i\<in>{0..<m_count poly2}.
               spec_incidentDot poly1 xf1 edge1 poly2 xf2 index
                 \<le> spec_incidentDot poly1 xf1 edge1 poly2 xf2 i"
    by (simp_all add: spec_incidentDot_def)
  let ?i2 = "if index + 1 < m_count poly2 then index + 1 else 0"
  have i2: "?i2 = (index + 1) mod m_count poly2"
  proof (cases "index + 1 < m_count poly2")
    case True
    with rng show ?thesis by (simp add: mod_pos_pos_trivial)
  next
    case False
    with rng have "index + 1 = m_count poly2" by simp
    then show ?thesis by simp
  qed
  have i2rng: "0 \<le> ?i2 \<and> ?i2 < 256" using rng small by auto
  let ?c0 = "\<lparr>cv_v = b2Mul_xf xf2 (m_vertices poly2 ! nat index),
              cv_id = \<lparr>indexA = word_of_int edge1, indexB = word_of_int index,
                       typeA = e_face, typeB = e_vertex\<rparr>\<rparr>"
  let ?c1 = "\<lparr>cv_v = b2Mul_xf xf2 (m_vertices poly2 ! nat ?i2),
              cv_id = \<lparr>indexA = word_of_int edge1, indexB = word_of_int ?i2,
                       typeA = e_face, typeB = e_vertex\<rparr>\<rparr>"
  have res: "b2FindIncidentEdge maxFloat poly1 xf1 edge1 poly2 xf2 = Some [?c0, ?c1]"
    using valid by (simp add: b2FindIncidentEdge_def Let_def idx)
  have u1: "uint (word_of_int edge1 :: 8 word) = edge1"
    using valid small by (intro uint_index) auto
  have u2: "uint (word_of_int index :: 8 word) = index"
    using rng small by (intro uint_index) auto
  have u3: "uint (word_of_int ?i2 :: 8 word) = ?i2"
    using i2rng by (intro uint_index) auto
  have "b2FindIncidentEdge maxFloat poly1 xf1 edge1 poly2 xf2 = Some [?c0, ?c1]
         \<and> 0 \<le> index \<and> index < m_count poly2
         \<and> (\<forall>i\<in>{0..<m_count poly2}.
               spec_incidentDot poly1 xf1 edge1 poly2 xf2 index
                 \<le> spec_incidentDot poly1 xf1 edge1 poly2 xf2 i)
         \<and> cv_v ?c0 = b2Mul_xf xf2 (m_vertices poly2 ! nat index)
         \<and> cv_v ?c1 = b2Mul_xf xf2 (m_vertices poly2 ! nat ((index + 1) mod m_count poly2))
         \<and> uint (indexA (cv_id ?c0)) = edge1 \<and> typeA (cv_id ?c0) = e_face
         \<and> uint (indexB (cv_id ?c0)) = index \<and> typeB (cv_id ?c0) = e_vertex
         \<and> uint (indexA (cv_id ?c1)) = edge1 \<and> typeA (cv_id ?c1) = e_face
         \<and> uint (indexB (cv_id ?c1)) = (index + 1) mod m_count poly2 \<and> typeB (cv_id ?c1) = e_vertex"
    using res rng mn u1 u2 u3 i2 by simp
  then show ?thesis by blast
qed

theorem b2FindIncidentEdge_most_antiparallel_witness:
  "\<exists>c0 c1. b2FindIncidentEdge fltMax unitSquare (xfAt 0 0) 1 unitSquare (xfAt (9 / 10) 0) = Some [c0, c1]
     \<and> cv_v c0 = Vec2f (2 / 5) (1 / 2) \<and> cv_v c1 = Vec2f (2 / 5) (- 1 / 2)
     \<and> uint (indexA (cv_id c0)) = 1 \<and> uint (indexB (cv_id c0)) = 3
     \<and> uint (indexA (cv_id c1)) = 1 \<and> uint (indexB (cv_id c1)) = 0"
proof -
  let ?d = "spec_incidentDot unitSquare (xfAt 0 0) 1 unitSquare (xfAt (9 / 10) 0)"
  have cnt: "m_count unitSquare = 4" by (simp add: unitSquare_def)
  have d: "?d 0 = 0" "?d 1 = 1" "?d 2 = 0" "?d 3 = - 1"
    by (simp_all add: spec_incidentDot_def unitSquare_def xfAt_def vec_defs)
  have valid: "0 \<le> (1::int) \<and> 1 < m_count unitSquare" by (simp add: cnt)
  have c2: "1 \<le> m_count unitSquare" by (simp add: cnt)
  have small: "m_count unitSquare \<le> 256 \<and> m_count unitSquare \<le> 256" by (simp add: cnt)
  have fin: "\<forall>i\<in>{0..<m_count unitSquare}. ?d i \<le> fltMax"
    by (simp add: cnt ivl_0_4 d) (simp add: fltMax_def)
  from b2FindIncidentEdge_most_antiparallel [OF valid c2 small fin]
  obtain index c0 c1 where
    res: "b2FindIncidentEdge fltMax unitSquare (xfAt 0 0) 1 unitSquare (xfAt (9 / 10) 0) = Some [c0, c1]"
    and rng: "0 \<le> index" "index < 4"
    and mn: "\<forall>i\<in>{0..<4}. ?d index \<le> ?d i"
    and v0: "cv_v c0 = b2Mul_xf (xfAt (9 / 10) 0) (m_vertices unitSquare ! nat index)"
    and v1: "cv_v c1 = b2Mul_xf (xfAt (9 / 10) 0) (m_vertices unitSquare ! nat ((index + 1) mod 4))"
    and ids: "uint (indexA (cv_id c0)) = 1" "uint (indexB (cv_id c0)) = index"
      "uint (indexA (cv_id c1)) = 1" "uint (indexB (cv_id c1)) = (index + 1) mod 4"
    unfolding cnt by blast
  from mn have le: "?d index \<le> - 1" by (simp add: ivl_0_4 d)
  from rng have "index = 0 \<or> index = 1 \<or> index = 2 \<or> index = 3" by auto
  with le d have index: "index = 3" by auto
  show ?thesis
    using res v0 v1 ids unfolding index
    by (simp add: unitSquare_def xfAt_def vec_defs)
qed

text \<open>
  C5. For a two-point segment, a normal and an offset, with the signed distances
  \<open>d0\<close> and \<open>d1\<close> of the two points, the segment clipper returns both points
  unchanged, with their tags, when both distances are at most 0; no point when both are
  positive; and, when exactly one is positive, the point inside followed by the linearly
  interpolated point, which lies on the boundary and carries the new vertex tag. The
  returned count is in \<open>{0, 1, 2}\<close>.
\<close>

theorem b2ClipSegmentToLine_cases:
  fixes p0 p1 :: b2ClipVertex
  assumes d0: "d0 = b2Dot normal (cv_v p0) - offset"
    and d1: "d1 = b2Dot normal (cv_v p1) - offset"
    and out: "out = b2ClipSegmentToLine [p0, p1] normal offset newVertexIndexTag"
  shows "(d0 \<le> 0 \<and> d1 \<le> 0 \<longrightarrow> out = [p0, p1])
       \<and> (d0 > 0 \<and> d1 > 0 \<longrightarrow> out = [])
       \<and> ((d0 \<le> 0 \<and> d1 > 0) \<or> (d0 > 0 \<and> d1 \<le> 0) \<longrightarrow>
            (\<exists>b. out = [if d0 \<le> 0 then p0 else p1, b]
                \<and> cv_v b = Vec2f_add (cv_v p0)
                               (Vec2f_scale (d0 / (d0 - d1)) (Vec2f_sub (cv_v p1) (cv_v p0)))
                \<and> b2Dot normal (cv_v b) - offset = 0
                \<and> indexA (cv_id b) = word_of_int newVertexIndexTag))
       \<and> length out \<in> {0, 1, 2}"
proof (intro conjI impI)
  assume "d0 \<le> 0 \<and> d1 \<le> 0"
  then show "out = [p0, p1]"
    unfolding out d0 d1 by (simp add: b2ClipSegmentToLine_def)
next
  assume "d0 > 0 \<and> d1 > 0"
  then show "out = []"
    unfolding out d0 d1 by (simp add: b2ClipSegmentToLine_def Let_def)
next
  assume one: "(d0 \<le> 0 \<and> d1 > 0) \<or> (d0 > 0 \<and> d1 \<le> 0)"
  then have ne: "d0 \<noteq> d1" by auto
  let ?b = "\<lparr>cv_v = Vec2f_add (cv_v p0) (Vec2f_scale (d0 / (d0 - d1)) (Vec2f_sub (cv_v p1) (cv_v p0))),
             cv_id = \<lparr>indexA = word_of_int newVertexIndexTag, indexB = indexB (cv_id p0),
                      typeA = e_vertex, typeB = e_face\<rparr>\<rparr>"
  have "out = [if d0 \<le> 0 then p0 else p1, ?b]"
    using one unfolding out d0 d1 by (auto simp: b2ClipSegmentToLine_def Let_def)
  moreover have "b2Dot normal (cv_v ?b) - offset = 0"
    using boundary_on_line [OF ne d0 d1] by simp
  ultimately show "\<exists>b. out = [if d0 \<le> 0 then p0 else p1, b]
                \<and> cv_v b = Vec2f_add (cv_v p0)
                               (Vec2f_scale (d0 / (d0 - d1)) (Vec2f_sub (cv_v p1) (cv_v p0)))
                \<and> b2Dot normal (cv_v b) - offset = 0
                \<and> indexA (cv_id b) = word_of_int newVertexIndexTag"
    by (intro exI [of _ ?b]) simp
next
  show "length out \<in> {0, 1, 2}"
    unfolding out by (simp add: b2ClipSegmentToLine_def Let_def)
qed

theorem b2ClipSegmentToLine_cases_witness:
  "\<exists>b. b2ClipSegmentToLine
          [\<lparr>cv_v = Vec2f 0 0, cv_id = \<lparr>indexA = 1, indexB = 0, typeA = e_face, typeB = e_vertex\<rparr>\<rparr>,
           \<lparr>cv_v = Vec2f 2 0, cv_id = \<lparr>indexA = 1, indexB = 1, typeA = e_face, typeB = e_vertex\<rparr>\<rparr>]
          (Vec2f 1 0) 1 7
        = [\<lparr>cv_v = Vec2f 0 0, cv_id = \<lparr>indexA = 1, indexB = 0, typeA = e_face, typeB = e_vertex\<rparr>\<rparr>, b]
      \<and> cv_v b = Vec2f 1 0 \<and> indexA (cv_id b) = 7"
  using b2ClipSegmentToLine_cases [OF refl refl refl,
      of "Vec2f 1 0" "\<lparr>cv_v = Vec2f 0 0, cv_id = \<lparr>indexA = 1, indexB = 0, typeA = e_face, typeB = e_vertex\<rparr>\<rparr>"
         1 "\<lparr>cv_v = Vec2f 2 0, cv_id = \<lparr>indexA = 1, indexB = 1, typeA = e_face, typeB = e_vertex\<rparr>\<rparr>" 7]
  by (auto simp: vec_defs)

text \<open>
  C6. If clipping the incident edge against the first side plane yields fewer than 2
  points, or clipping that result against the second side plane does, then
  \<^verbatim>\<open>b2CollidePolygons\<close> returns a manifold with \<open>pointCount = 0\<close>.
\<close>

theorem b2CollidePolygons_clip_short_no_contact:
  assumes c1: "b2CollidePolygons_clipPoints1 maxFloat linearSlop polyA xfA polyB xfB = Some clipPoints1"
    and short: "length clipPoints1 < 2
                \<or> (b2CollidePolygons_clipPoints2 maxFloat linearSlop polyA xfA polyB xfB = Some clipPoints2
                    \<and> length clipPoints2 < 2)"
  shows "\<exists>m. b2CollidePolygons maxFloat linearSlop manifold polyA xfA polyB xfB = Some m
             \<and> pointCount m = 0"
proof (cases "b2CollidePolygons_separated maxFloat polyA xfA polyB xfB")
  case True
  from collide_separated [OF this] show ?thesis by simp
next
  case False
  show ?thesis
  proof (cases "length clipPoints1 < 2")
    case True
    from collide_clip1 [OF False c1 this] show ?thesis by simp
  next
    case long: False
    with short have "2 \<le> length clipPoints1"
      and "b2CollidePolygons_clipPoints2 maxFloat linearSlop polyA xfA polyB xfB = Some clipPoints2"
      and "length clipPoints2 < 2"
      by simp_all
    from collide_clip2 [OF False c1 this] show ?thesis by simp
  qed
qed

theorem b2CollidePolygons_clip_short_no_contact_witness:
  "\<exists>m. b2CollidePolygons fltMax slop oldManifold (wedge (1 / 5)) (xfAt 0 0)
         (wedge (1 / 5)) (xfHalfTurn (- (3 / 5)) 0) = Some m
       \<and> pointCount m = 0"
proof -
  have "length ([] :: b2ClipVertex list) < 2
        \<or> (b2CollidePolygons_clipPoints2 fltMax slop (wedge (1 / 5)) (xfAt 0 0)
              (wedge (1 / 5)) (xfHalfTurn (- (3 / 5)) 0) = Some []
            \<and> length ([] :: b2ClipVertex list) < 2)"
    by simp
  from b2CollidePolygons_clip_short_no_contact [OF clip1_ww this] show ?thesis .
qed



text \<open>
  C8. When both clips are successful, the identifiers of the emitted manifold points are
  those of the kept clipped points: with the per-shape components (\<open>indexA\<close> with
  \<open>indexB\<close>, \<open>typeA\<close> with \<open>typeB\<close>) swapped when polygon B was chosen as the
  reference (\<open>flip = 1\<close>, manifold type \<open>e_faceB\<close>), and unswapped when A is the
  reference (\<open>flip = 0\<close>, manifold type \<open>e_faceA\<close>).
\<close>

theorem b2CollidePolygons_ids_follow_flip:
  assumes "length (points manifold) = 2"
    and "\<not> b2CollidePolygons_separated maxFloat polyA xfA polyB xfB"
    and "b2CollidePolygons_clipPoints1 maxFloat linearSlop polyA xfA polyB xfB = Some clipPoints1"
    and "length clipPoints1 = 2"
    and "b2CollidePolygons_clipPoints2 maxFloat linearSlop polyA xfA polyB xfB = Some clipPoints2"
    and "length clipPoints2 = 2"
    and r: "r = b2CollidePolygons_r maxFloat linearSlop polyA xfA polyB xfB"
    and f: "f = b2CollidePolygons_f maxFloat linearSlop polyA xfA polyB xfB"
    and kept: "kept = filter (\<lambda>cv. spec_depth (f_normal f) (f_frontOffset f) cv
                                  \<le> b2CollidePolygons_totalRadius polyA polyB) clipPoints2"
  shows "\<exists>m. b2CollidePolygons maxFloat linearSlop manifold polyA xfA polyB xfB = Some m
             \<and> ((ref_flip r = 1 \<and> ref_type r = e_faceB \<and> ref_poly1 r = polyB \<and> mtype m = e_faceB
                  \<and> map cp_id (take (nat (pointCount m)) (points m)) = map (\<lambda>cv. spec_swapped (cv_id cv)) kept)
                \<or> (ref_flip r = 0 \<and> ref_type r = e_faceA \<and> ref_poly1 r = polyA \<and> mtype m = e_faceA
                  \<and> map cp_id (take (nat (pointCount m)) (points m)) = map cv_id kept))"
proof -
  let ?m0 = "manifold\<lparr>pointCount := 0, mtype := ref_type r,
               localNormal := f_localNormal f, localPoint := f_planePoint f\<rparr>"
  have res: "b2CollidePolygons maxFloat linearSlop manifold polyA xfA polyB xfB
      = Some (b2CollidePolygons_points ?m0 clipPoints2 (f_normal f) (f_frontOffset f)
                (b2CollidePolygons_totalRadius polyA polyB) (ref_xf2 r) (ref_flip r))"
    using collide_points [of maxFloat polyA xfA polyB xfB linearSlop clipPoints1 clipPoints2 manifold]
      assms(2-6) unfolding r f by simp
  have len: "length (points ?m0) = 2" using assms(1) by simp
  note pl = points_loop [OF len assms(6) kept refl, of "ref_xf2 r" "ref_flip r"]
  have flip: "(ref_flip r = 1 \<and> ref_type r = e_faceB \<and> ref_poly1 r = polyB)
            \<or> (ref_flip r = 0 \<and> ref_type r = e_faceA \<and> ref_poly1 r = polyA)"
    unfolding r b2CollidePolygons_r_def b2CollidePolygons_reference_def
    by (simp add: Let_def split: prod.splits)
  show ?thesis
    unfolding res using pl(1) pl(3) pl(5) flip by auto
qed

theorem b2CollidePolygons_ids_follow_flip_witness:
  "\<exists>m. b2CollidePolygons fltMax slop oldManifold (wedge 0) (xfAt (2 / 5) 0) unitSquare (xfAt 0 0) = Some m
       \<and> mtype m = e_faceB
       \<and> map cp_id (take (nat (pointCount m)) (points m))
           = [\<lparr>indexA = 0, indexB = 1, typeA = e_vertex, typeB = e_face\<rparr>]"
proof -
  have len: "length (points oldManifold) = 2" by (simp add: oldManifold_def)
  have kept: "[\<lparr>cv_v = Vec2f (2 / 5) 0, cv_id = \<lparr>indexA = 1, indexB = 0, typeA = e_face, typeB = e_vertex\<rparr>\<rparr>]
    = filter (\<lambda>cv. spec_depth
                  (f_normal (b2CollidePolygons_f fltMax slop (wedge 0) (xfAt (2 / 5) 0) unitSquare (xfAt 0 0)))
                  (f_frontOffset (b2CollidePolygons_f fltMax slop (wedge 0) (xfAt (2 / 5) 0) unitSquare (xfAt 0 0))) cv
                              \<le> b2CollidePolygons_totalRadius (wedge 0) unitSquare)
                [\<lparr>cv_v = Vec2f (2 / 5) 0, cv_id = \<lparr>indexA = 1, indexB = 0, typeA = e_face, typeB = e_vertex\<rparr>\<rparr>,
                 \<lparr>cv_v = Vec2f (16 / 15) (- 1 / 2), cv_id = \<lparr>indexA = 1, indexB = 0, typeA = e_vertex, typeB = e_face\<rparr>\<rparr>]"
    by (simp add: f_ws R_ws spec_depth_def b2Dot_def)
  from b2CollidePolygons_ids_follow_flip [OF len notsep_ws clip1_ws _ clip2_ws _ refl refl kept]
  show ?thesis
    by (simp add: r_ws spec_swapped_def)
qed

text \<open>
  C9. For every input with \<open>0 \<le> tMax\<close>, \<^verbatim>\<open>cb2TimeOfImpact\<close> returns an output whose
  state is one of failed, overlapped, touching and separated, never unknown, with
  \<open>t\<close> in \<open>[0, tMax]\<close>; the output is terminal: a further step of the driver leaves
  it as it is.
\<close>

theorem cb2TimeOfImpact_terminal:
  assumes "0 \<le> tMax input" and "0 \<le> ext_nearZero ext"
  shows "out_state (cb2TimeOfImpact ext input) \<in> {e_failed, e_overlapped, e_touching, e_separated}
       \<and> 0 \<le> out_t (cb2TimeOfImpact ext input)
       \<and> out_t (cb2TimeOfImpact ext input) \<le> tMax input
       \<and> cb2TimeOfImpact_step ext input (cb2TimeOfImpact ext input) = cb2TimeOfImpact ext input"
proof -
  have "0 \<le> out_t \<lparr>out_state = e_unknown, out_t = 0\<rparr>
        \<and> out_t \<lparr>out_state = e_unknown, out_t = 0\<rparr> \<le> tMax input"
    using assms(1) by simp
  from loop_inv [OF this assms(2), of "ext_iterationCap ext"]
  have inv: "out_state (cb2TimeOfImpact ext input) \<noteq> e_unknown
       \<and> 0 \<le> out_t (cb2TimeOfImpact ext input)
       \<and> out_t (cb2TimeOfImpact ext input) \<le> tMax input"
    unfolding cb2TimeOfImpact_def .
  then have "out_state (cb2TimeOfImpact ext input) \<in> {e_failed, e_overlapped, e_touching, e_separated}"
    by (cases "out_state (cb2TimeOfImpact ext input)") simp_all
  with inv step_terminal show ?thesis by blast
qed

theorem cb2TimeOfImpact_terminal_witness:
  "cb2TimeOfImpact headOn (headOnInput 3) = \<lparr>out_state = e_touching, out_t = 199 / 100\<rparr>
   \<and> cb2TimeOfImpact_step headOn (headOnInput 3) (cb2TimeOfImpact headOn (headOnInput 3))
       = cb2TimeOfImpact headOn (headOnInput 3)
   \<and> cb2TimeOfImpact headOn (headOnInput 1) = \<lparr>out_state = e_separated, out_t = 1\<rparr>"
proof -
  have "0 \<le> tMax (headOnInput 3)" and "0 \<le> ext_nearZero headOn"
    by (simp_all add: headOnInput_def headOn_def)
  from cb2TimeOfImpact_terminal [OF this] headOn_3 headOn_1 show ?thesis by simp
qed

text \<open>
  C10. For a reference polygon with vertex count at least 1, \<^verbatim>\<open>b2FindMaxSeparation\<close>
  returns an edge index in \<open>[0, count)\<close>. So when \<^verbatim>\<open>b2CollidePolygons\<close> passes the
  index of the chosen reference to \<^verbatim>\<open>b2FindIncidentEdge\<close>, the assertion
  \<open>0 \<le> edge1 \<and> edge1 < m_count poly1\<close> holds (the result is not \<open>None\<close>), and
  \<open>iv1 = edge1\<close> and its wrap-around successor \<open>iv2\<close>, which index the vertices of the
  reference polygon, are in \<open>[0, count)\<close> too.
\<close>

theorem b2FindMaxSeparation_edge_in_bounds:
  "(1 \<le> m_count poly1 \<longrightarrow>
      0 \<le> fst (b2FindMaxSeparation maxFloat poly1 xf1 poly2 xf2)
      \<and> fst (b2FindMaxSeparation maxFloat poly1 xf1 poly2 xf2) < m_count poly1)
   \<and> (1 \<le> m_count polyA \<and> 1 \<le> m_count polyB \<longrightarrow>
        (let r = b2CollidePolygons_r maxFloat linearSlop polyA xfA polyB xfB;
             f = b2CollidePolygons_f maxFloat linearSlop polyA xfA polyB xfB
         in 0 \<le> ref_edge1 r \<and> ref_edge1 r < m_count (ref_poly1 r)
            \<and> b2CollidePolygons_incidentEdge maxFloat linearSlop polyA xfA polyB xfB \<noteq> None
            \<and> b2CollidePolygons maxFloat linearSlop manifold polyA xfA polyB xfB \<noteq> None
            \<and> f_iv1 f = ref_edge1 r
            \<and> 0 \<le> f_iv2 f \<and> f_iv2 f < m_count (ref_poly1 r)))"
proof (intro conjI impI)
  assume "1 \<le> m_count poly1"
  from b2FindMaxSeparation_edgeIndex [OF this]
  show "0 \<le> fst (b2FindMaxSeparation maxFloat poly1 xf1 poly2 xf2)"
    and "fst (b2FindMaxSeparation maxFloat poly1 xf1 poly2 xf2) < m_count poly1"
    by blast+
next
  assume ab: "1 \<le> m_count polyA \<and> 1 \<le> m_count polyB"
  let ?r = "b2CollidePolygons_r maxFloat linearSlop polyA xfA polyB xfB"
  let ?f = "b2CollidePolygons_f maxFloat linearSlop polyA xfA polyB xfB"
  from ab have e: "0 \<le> ref_edge1 ?r \<and> ref_edge1 ?r < m_count (ref_poly1 ?r)"
    using reference_edge_in_range [OF _ _ refl] by blast
  then have inc: "b2CollidePolygons_incidentEdge maxFloat linearSlop polyA xfA polyB xfB \<noteq> None"
    unfolding b2CollidePolygons_incidentEdge_def Let_def incident_defined .
  have iv1: "f_iv1 ?f = ref_edge1 ?r"
    by (simp add: b2CollidePolygons_f_def b2CollidePolygons_face_def Let_def)
  have iv2: "0 \<le> f_iv2 ?f \<and> f_iv2 ?f < m_count (ref_poly1 ?r)"
    using e by (simp add: b2CollidePolygons_f_def b2CollidePolygons_face_def Let_def)
  show "let r = ?r; f = ?f
        in 0 \<le> ref_edge1 r \<and> ref_edge1 r < m_count (ref_poly1 r)
           \<and> b2CollidePolygons_incidentEdge maxFloat linearSlop polyA xfA polyB xfB \<noteq> None
           \<and> b2CollidePolygons maxFloat linearSlop manifold polyA xfA polyB xfB \<noteq> None
           \<and> f_iv1 f = ref_edge1 r
           \<and> 0 \<le> f_iv2 f \<and> f_iv2 f < m_count (ref_poly1 r)"
    unfolding Let_def using e inc collide_defined [OF inc] iv1 iv2 by blast
qed

theorem b2FindMaxSeparation_edge_in_bounds_witness:
  "fst (b2FindMaxSeparation fltMax unitSquare (xfAt 0 0) (wedge 0) (xfAt (2 / 5) 0)) = 1
   \<and> ref_edge1 (b2CollidePolygons_r fltMax slop (wedge 0) (xfAt (2 / 5) 0) unitSquare (xfAt 0 0)) = 1
   \<and> f_iv2 (b2CollidePolygons_f fltMax slop (wedge 0) (xfAt (2 / 5) 0) unitSquare (xfAt 0 0)) = 2
   \<and> m_count (ref_poly1 (b2CollidePolygons_r fltMax slop (wedge 0) (xfAt (2 / 5) 0) unitSquare (xfAt 0 0))) = 4
   \<and> b2CollidePolygons fltMax slop oldManifold (wedge 0) (xfAt (2 / 5) 0) unitSquare (xfAt 0 0) \<noteq> None"
proof -
  have "(1::int) \<le> m_count unitSquare" and "1 \<le> m_count (wedge 0) \<and> 1 \<le> m_count unitSquare"
    by (simp_all add: unitSquare_def wedge_def)
  with b2FindMaxSeparation_edge_in_bounds
    [of unitSquare fltMax "xfAt 0 0" "wedge 0" "xfAt (2 / 5) 0" "wedge 0" unitSquare slop
      "xfAt (2 / 5) 0" "xfAt 0 0" oldManifold]
  show ?thesis
    by (simp add: sep_ws_B r_ws f_ws Let_def) (simp add: unitSquare_def)
qed

end
